theory Spec2Isabelle
  imports Main
begin

section \<open>Python exceptions as values\<close>

text \<open>
  The orchestrator is Python. Every \<open>raise\<close> of the source, and every exception
  the interpreter or SQLite raises on the paths modelled here, is a value of
  \<open>error\<close>; a function that can raise returns \<open>error + 'a\<close> with \<open>Inl\<close> the
  exception. \<open>DatabaseError\<close> is \<open>orchestrator.exceptions.DatabaseError\<close>, the
  wrapper every \<open>StateManager\<close> method puts around whatever its body raised.
\<close>

datatype error =
    AttributeError string
  | KeyError string
  | TypeError string
  | ValueError string
  | DatabaseError string
  | CopilotCLIError string
  | Exception string

section \<open>The verification gate (orchestrator/verifier.py)\<close>

text \<open>
  \<open>VerificationConfig.__init__\<close> (lines 50-56) reads
  \<open>config_dict.get("findings_thresholds", {"major": 0, "medium": 3, "minor": 10})\<close>.
  The argument is the entry of \<open>config_dict\<close> under that key, \<open>None\<close> when the key
  is absent. Dictionaries from severity names to counts are maps.
\<close>

type_synonym counts = "string \<rightharpoonup> int"

definition default_findings_thresholds :: counts where
  "default_findings_thresholds =
     [''major'' \<mapsto> 0, ''medium'' \<mapsto> 3, ''minor'' \<mapsto> 10]"

definition findings_thresholds :: "counts option \<Rightarrow> counts" where
  "findings_thresholds entry =
     (case entry of None \<Rightarrow> default_findings_thresholds | Some d \<Rightarrow> d)"

text \<open>\<open>d.get(k, default)\<close> of a Python dictionary.\<close>

definition dict_get :: "counts \<Rightarrow> string \<Rightarrow> int \<Rightarrow> int" where
  "dict_get d k dflt = (case d k of None \<Rightarrow> dflt | Some v \<Rightarrow> v)"

text \<open>
  The \<open>logger.warning\<close> of each failing branch formats
  \<open>findings_summary[k]\<close> and then \<open>thresholds[k]\<close> with subscripts, which raise
  \<open>KeyError\<close> on a missing key before \<open>return False\<close> is reached.
\<close>

definition exceeds_warning :: "counts \<Rightarrow> counts \<Rightarrow> string \<Rightarrow> error + bool" where
  "exceeds_warning findings_summary thresholds k =
     (case findings_summary k of
        None \<Rightarrow> Inl (KeyError k)
      | Some _ \<Rightarrow>
          (case thresholds k of
             None \<Rightarrow> Inl (KeyError k)
           | Some _ \<Rightarrow> Inr False))"

text \<open>\<open>PhaseVerifier._check_findings_thresholds\<close> (lines 611-627).\<close>

definition check_findings_thresholds :: "counts \<Rightarrow> counts \<Rightarrow> error + bool" where
  "check_findings_thresholds thresholds findings_summary =
     (if dict_get findings_summary ''major'' 0 > dict_get thresholds ''major'' 0
      then exceeds_warning findings_summary thresholds ''major''
      else if dict_get findings_summary ''medium'' 0 > dict_get thresholds ''medium'' 3
      then exceeds_warning findings_summary thresholds ''medium''
      else if dict_get findings_summary ''minor'' 0 > dict_get thresholds ''minor'' 10
      then exceeds_warning findings_summary thresholds ''minor''
      else Inr True)"

section \<open>The state store (orchestrator/schema.py, orchestrator/state.py)\<close>

text \<open>
  The store is the SQLite database of \<open>CREATE_TABLES_SQL\<close>: one list of rows per
  table, in insertion order. Identifiers are the strings \<open>uuid.uuid4()\<close> returns;
  they are modelled as naturals drawn from the counter \<open>uuid4\<close> of the store, which is
  what the code relies on (a fresh value per call). \<open>datetime.now()\<close> reads the
  clock \<open>clock\<close> of the store and advances it. Columns no modelled path reads
  (titles, paths, the plan payload, creation times of runs and phases) are left out of
  the rows; a column a \<open>CHECK\<close> constrains is kept when a modelled statement writes it.
\<close>

type_synonym ident = nat
type_synonym timestamp = nat

record run_row =
  r_run_id :: ident
  r_updated_at :: timestamp
  r_status :: string
  r_total_phases :: int
  r_completed_phases :: int
  r_current_phase_id :: "ident option"
  r_error_message :: "string option"

record phase_row =
  p_phase_id :: ident
  p_run_id :: ident
  p_phase_number :: int
  p_status :: string
  p_started_at :: "timestamp option"
  p_completed_at :: "timestamp option"
  p_branch_name :: "string option"
  p_retry_count :: int
  p_max_retries :: int

record execution_row =
  e_execution_id :: ident
  e_phase_id :: ident
  e_pass_number :: int
  e_started_at :: timestamp
  e_completed_at :: "timestamp option"
  e_status :: string
  e_copilot_summary :: "string option"
  e_execution_mode :: string
  e_error_message :: "string option"

text \<open>
  Python values a caller can pass as a keyword argument (\<open>PId\<close> is an identifier,
  a string). SQLite columns are dynamically typed, so a row of \<open>findings\<close> stores
  whatever value the caller passed.
\<close>

datatype pyval = PNone | PStr string | PInt int | PId ident

record finding_row =
  f_finding_id :: ident
  f_execution_id :: pyval
  f_severity :: pyval
  f_category :: pyval
  f_title :: pyval
  f_description :: pyval
  f_evidence :: pyval
  f_suggested_fix :: pyval
  f_created_at :: timestamp

record artifact_row =
  a_artifact_id :: ident
  a_run_id :: ident
  a_phase_id :: "ident option"
  a_artifact_type :: string
  a_created_at :: timestamp

record intervention_row =
  mi_intervention_id :: ident
  mi_phase_id :: ident
  mi_created_at :: timestamp
  mi_reason :: string
  mi_action_taken :: "string option"
  mi_notes :: "string option"
  mi_resolved_at :: "timestamp option"

record store =
  db_runs :: "run_row list"
  db_phases :: "phase_row list"
  db_executions :: "execution_row list"
  db_findings :: "finding_row list"
  db_artifacts :: "artifact_row list"
  db_manual_interventions :: "intervention_row list"
  uuid4 :: nat
  clock :: timestamp

subsection \<open>The CHECK constraints of the schema\<close>

text \<open>schema.py line 23: \<open>runs.status\<close>.\<close>

definition check_runs_status :: "string \<Rightarrow> bool" where
  "check_runs_status status \<longleftrightarrow>
     status \<in> set [''planning'', ''executing'', ''paused'', ''completed'', ''failed'', ''aborted'']"

text \<open>schema.py line 42: \<open>phases.status\<close>. The value \<open>paused\<close> is not in the list.\<close>

definition check_phases_status :: "string \<Rightarrow> bool" where
  "check_phases_status status \<longleftrightarrow>
     status \<in> set [''pending'', ''in_progress'', ''completed'', ''failed'', ''skipped'']"

text \<open>schema.py lines 61 and 65: \<open>executions.status\<close> and \<open>executions.execution_mode\<close>.\<close>

definition check_executions_status :: "string \<Rightarrow> bool" where
  "check_executions_status status \<longleftrightarrow> status \<in> set [''running'', ''completed'', ''failed'']"

definition check_executions_mode :: "string \<Rightarrow> bool" where
  "check_executions_mode m \<longleftrightarrow> m \<in> set [''direct'', ''branch'']"

text \<open>schema.py lines 74-75: \<open>findings.severity\<close> and \<open>findings.category\<close>.\<close>

definition check_findings_severity :: "pyval \<Rightarrow> bool" where
  "check_findings_severity v \<longleftrightarrow> v \<in> set [PStr ''major'', PStr ''medium'', PStr ''minor'']"

definition check_findings_category :: "pyval \<Rightarrow> bool" where
  "check_findings_category v \<longleftrightarrow>
     v \<in> set [PStr ''build'', PStr ''test'', PStr ''lint'', PStr ''security'',
               PStr ''spec_validation'', PStr ''custom'']"

text \<open>schema.py line 91: \<open>artifacts.artifact_type\<close>.\<close>

definition check_artifacts_type :: "string \<Rightarrow> bool" where
  "check_artifacts_type ty \<longleftrightarrow>
     ty \<in> set [''phase_plan'', ''spec'', ''copilot_output'', ''findings_report'',
                ''verification_log'']"

text \<open>
  schema.py lines 105-106: \<open>manual_interventions.reason\<close> and
  \<open>manual_interventions.action_taken\<close>. A \<open>CHECK\<close> whose expression is NULL passes,
  so a NULL \<open>action_taken\<close> is accepted.
\<close>

definition check_interventions_reason :: "string \<Rightarrow> bool" where
  "check_interventions_reason reason \<longleftrightarrow>
     reason \<in> set [''max_retries_exceeded'', ''user_requested'', ''critical_error'']"

definition check_interventions_action :: "string option \<Rightarrow> bool" where
  "check_interventions_action action_taken \<longleftrightarrow>
     (case action_taken of
        None \<Rightarrow> True
      | Some a \<Rightarrow> a \<in> set [''resume'', ''skip'', ''modify_spec'', ''abort''])"

text \<open>
  \<open>UPDATE t SET ... WHERE cond\<close>: the rows that satisfy the condition are rewritten;
  the statement fails as a whole, changing nothing, when a rewritten row violates a
  \<open>CHECK\<close> (SQLite raises \<open>IntegrityError\<close>). A statement that matches no row
  succeeds.
\<close>

definition sql_update ::
  "('row \<Rightarrow> bool) \<Rightarrow> ('row \<Rightarrow> 'row) \<Rightarrow> ('row \<Rightarrow> bool) \<Rightarrow> 'row list \<Rightarrow> 'row list option" where
  "sql_update cond assign chk rows =
     (if list_ex (\<lambda>r. cond r \<and> \<not> chk (assign r)) rows then None
      else Some (map (\<lambda>r. if cond r then assign r else r) rows))"

text \<open>
  \<open>SET n = n + 1\<close> on an \<open>INTEGER\<close> column. SQLite adds as a signed 64-bit
  integer; when the sum does not fit it computes in floating point and stores the
  \<open>REAL\<close> \<open>2 ^ 63\<close>, and on a \<open>REAL\<close> of that size adding 1 changes nothing.
  The pydantic models read a \<open>REAL\<close> without a fraction back as the integer of the
  same value, so a column is an \<open>int\<close> here.
\<close>

definition sql_plus_one :: "int \<Rightarrow> int" where
  "sql_plus_one n = (if - (2 ^ 63) \<le> n \<and> n < 2 ^ 63 then n + 1 else n)"

text \<open>\<open>datetime.now()\<close> and \<open>uuid.uuid4()\<close>.\<close>

definition datetime_now :: "store \<Rightarrow> timestamp \<times> store" where
  "datetime_now s = (clock s, s\<lparr>clock := Suc (clock s)\<rparr>)"

definition uuid_uuid4 :: "store \<Rightarrow> ident \<times> store" where
  "uuid_uuid4 s = (uuid4 s, s\<lparr>uuid4 := Suc (uuid4 s)\<rparr>)"

subsection \<open>Sequencing calls that can raise\<close>

text \<open>
  A method of the store takes the store and returns its result, or the exception it
  raised, with the store as it left it: an exception does not undo what earlier
  statements committed.
\<close>

type_synonym 'a result = "(error + 'a) \<times> store"

definition bind :: "'a result \<Rightarrow> ('a \<Rightarrow> store \<Rightarrow> 'b result) \<Rightarrow> 'b result" where
  "bind m f = (case m of (Inl e, s) \<Rightarrow> (Inl e, s) | (Inr a, s) \<Rightarrow> f a s)"

text \<open>\<open>try: m except Exception as e: h\<close>.\<close>

definition catch :: "'a result \<Rightarrow> (error \<Rightarrow> store \<Rightarrow> 'a result) \<Rightarrow> 'a result" where
  "catch m h = (case m of (Inl e, s) \<Rightarrow> h e s | (Inr a, s) \<Rightarrow> (Inr a, s))"

subsection \<open>The pydantic models of orchestrator/models.py\<close>

text \<open>
  \<open>RunState(**dict(row))\<close> and its siblings run the field validators of the model
  and raise on a value outside the allowed set. \<open>PhaseState.validate_status\<close>
  (models.py lines 101-107) allows the same five values as the schema.
\<close>

definition RunState_valid :: "run_row \<Rightarrow> bool" where
  "RunState_valid r \<longleftrightarrow>
     r_status r \<in> set [''planning'', ''executing'', ''paused'', ''completed'', ''failed'', ''aborted'']"

definition PhaseState_valid :: "phase_row \<Rightarrow> bool" where
  "PhaseState_valid p \<longleftrightarrow>
     p_phase_number p > 0 \<and>
     p_status p \<in> set [''pending'', ''in_progress'', ''completed'', ''failed'', ''skipped'']"

definition ExecutionState_valid :: "execution_row \<Rightarrow> bool" where
  "ExecutionState_valid e \<longleftrightarrow>
     e_pass_number e > 0 \<and>
     e_status e \<in> set [''running'', ''completed'', ''failed''] \<and>
     e_execution_mode e \<in> set [''direct'', ''branch'']"

definition ManualIntervention_valid :: "intervention_row \<Rightarrow> bool" where
  "ManualIntervention_valid i \<longleftrightarrow>
     mi_reason i \<in> set [''max_retries_exceeded'', ''user_requested'', ''critical_error''] \<and>
     (case mi_action_taken i of
        None \<Rightarrow> True
      | Some a \<Rightarrow> a \<in> set [''resume'', ''skip'', ''modify_spec'', ''abort''])"

text \<open>
  The fields \<open>PhaseState\<close> declares (models.py lines 68-82). The model is a pydantic
  \<open>BaseModel\<close> with no property or method named \<open>id\<close>, so the expression
  \<open>phase.id\<close> raises \<open>AttributeError\<close>; the identifier of a phase is
  \<open>phase.phase_id\<close>, the field \<open>p_phase_id\<close> of the row.
\<close>

definition PhaseState_fields :: "string list" where
  "PhaseState_fields =
     [''phase_id'', ''run_id'', ''phase_number'', ''title'', ''intent'', ''size'', ''status'',
      ''created_at'', ''started_at'', ''completed_at'', ''spec_path'', ''plan_json'',
      ''branch_name'', ''retry_count'', ''max_retries'']"

definition PhaseState_id :: "phase_row \<Rightarrow> error + ident" where
  "PhaseState_id phase =
     (if ''id'' \<in> set PhaseState_fields then Inr (p_phase_id phase)
      else Inl (AttributeError ''id''))"

subsection \<open>StateManager: runs\<close>

text \<open>\<open>StateManager.get_run\<close> (state.py lines 101-113).\<close>

definition get_run :: "ident \<Rightarrow> store \<Rightarrow> run_row option result" where
  "get_run run_id s =
     (case find (\<lambda>r. r_run_id r = run_id) (db_runs s) of
        None \<Rightarrow> (Inr None, s)
      | Some row \<Rightarrow>
          if RunState_valid row then (Inr (Some row), s)
          else (Inl (DatabaseError ''Failed to get run''), s))"

text \<open>\<open>StateManager.update_run_status\<close> (state.py lines 115-134).\<close>

definition update_run_status :: "ident \<Rightarrow> string \<Rightarrow> string option \<Rightarrow> store \<Rightarrow> unit result" where
  "update_run_status run_id status err s =
     (case datetime_now s of
        (now, s1) \<Rightarrow>
          (case sql_update (\<lambda>r. r_run_id r = run_id)
                  (\<lambda>r. r\<lparr>r_status := status, r_updated_at := now, r_error_message := err\<rparr>)
                  (\<lambda>r. check_runs_status (r_status r)) (db_runs s1) of
             None \<Rightarrow> (Inl (DatabaseError ''Failed to update run status''), s1)
           | Some rows \<Rightarrow> (Inr (), s1\<lparr>db_runs := rows\<rparr>)))"

subsection \<open>StateManager: phases\<close>

text \<open>\<open>StateManager.get_phase\<close> (state.py lines 218-230).\<close>

definition get_phase :: "ident \<Rightarrow> store \<Rightarrow> phase_row option result" where
  "get_phase phase_id s =
     (case find (\<lambda>p. p_phase_id p = phase_id) (db_phases s) of
        None \<Rightarrow> (Inr None, s)
      | Some row \<Rightarrow>
          if PhaseState_valid row then (Inr (Some row), s)
          else (Inl (DatabaseError ''Failed to get phase''), s))"

text \<open>
  \<open>StateManager.get_phases_for_run\<close> (state.py lines 232-243):
  \<open>SELECT * FROM phases WHERE run_id = ? ORDER BY phase_number\<close>. Rows with the same
  \<open>phase_number\<close> keep their insertion order.
\<close>

definition get_phases_for_run :: "ident \<Rightarrow> store \<Rightarrow> phase_row list result" where
  "get_phases_for_run run_id s =
     (let rows = sort_key p_phase_number (filter (\<lambda>p. p_run_id p = run_id) (db_phases s))
      in if list_all PhaseState_valid rows then (Inr rows, s)
         else (Inl (DatabaseError ''Failed to get phases for run''), s))"

text \<open>
  \<open>StateManager.update_phase_status\<close> (state.py lines 245-287). The first statement
  writes \<open>phases.status\<close> and is the only one a \<open>CHECK\<close> can reject; the
  optional timestamps are written when the caller passes them. The second statement
  depends on the new status alone: for \<open>in_progress\<close> the run of the phase gets
  \<open>current_phase_id\<close>, for \<open>completed\<close> it gets \<open>completed_phases + 1\<close>.
\<close>

definition update_phase_status ::
  "ident \<Rightarrow> string \<Rightarrow> timestamp option \<Rightarrow> timestamp option \<Rightarrow> store \<Rightarrow> unit result" where
  "update_phase_status phase_id status started_at completed_at s =
     (case sql_update (\<lambda>p. p_phase_id p = phase_id)
             (\<lambda>p. p\<lparr>p_status := status,
                    p_started_at := (case started_at of None \<Rightarrow> p_started_at p | Some t \<Rightarrow> Some t),
                    p_completed_at :=
                      (case completed_at of None \<Rightarrow> p_completed_at p | Some t \<Rightarrow> Some t)\<rparr>)
             (\<lambda>p. check_phases_status (p_status p)) (db_phases s) of
        None \<Rightarrow> (Inl (DatabaseError ''Failed to update phase status''), s)
      | Some rows \<Rightarrow>
          (let s1 = s\<lparr>db_phases := rows\<rparr> in
           if status = ''in_progress'' then
             (Inr (), s1\<lparr>db_runs :=
                map (\<lambda>r. if Some (r_run_id r) =
                               map_option p_run_id (find (\<lambda>p. p_phase_id p = phase_id) rows)
                          then r\<lparr>r_current_phase_id := Some phase_id\<rparr> else r)
                    (db_runs s1)\<rparr>)
           else if status = ''completed'' then
             (Inr (), s1\<lparr>db_runs :=
                map (\<lambda>r. if r_run_id r \<in>
                               set (map p_run_id (filter (\<lambda>p. p_phase_id p = phase_id) rows))
                          then r\<lparr>r_completed_phases := sql_plus_one (r_completed_phases r)\<rparr>
                          else r)
                    (db_runs s1)\<rparr>)
           else (Inr (), s1)))"

text \<open>\<open>StateManager.increment_phase_retry\<close> (state.py lines 289-305).\<close>

definition increment_phase_retry :: "ident \<Rightarrow> store \<Rightarrow> int result" where
  "increment_phase_retry phase_id s =
     (let s1 = s\<lparr>db_phases :=
                  map (\<lambda>p. if p_phase_id p = phase_id
                            then p\<lparr>p_retry_count := sql_plus_one (p_retry_count p)\<rparr> else p)
                      (db_phases s)\<rparr>
      in (case find (\<lambda>p. p_phase_id p = phase_id) (db_phases s1) of
            None \<Rightarrow> (Inr 0, s1)
          | Some row \<Rightarrow> (Inr (p_retry_count row), s1)))"

text \<open>
  \<open>StateManager.get_current_phase\<close> (state.py lines 307-322):
  \<open>WHERE run_id = ? AND status = 'in_progress' ORDER BY phase_number LIMIT 1\<close>.
\<close>

definition get_current_phase :: "ident \<Rightarrow> store \<Rightarrow> phase_row option result" where
  "get_current_phase run_id s =
     (case sort_key p_phase_number
             (filter (\<lambda>p. p_run_id p = run_id \<and> p_status p = ''in_progress'') (db_phases s)) of
        [] \<Rightarrow> (Inr None, s)
      | row # _ \<Rightarrow>
          if PhaseState_valid row then (Inr (Some row), s)
          else (Inl (DatabaseError ''Failed to get current phase''), s))"

text \<open>\<open>StateManager.recover_run\<close> (state.py lines 812-824).\<close>

definition recover_run :: "ident \<Rightarrow> store \<Rightarrow> (run_row \<times> phase_row option) result" where
  "recover_run run_id s =
     catch
       (bind (get_run run_id s) (\<lambda>run s1.
          case run of
            None \<Rightarrow> (Inl (Exception ''Run not found''), s1)
          | Some run \<Rightarrow>
              bind (get_current_phase run_id s1) (\<lambda>current_phase s2.
                (Inr (run, current_phase), s2))))
       (\<lambda>e s1. (Inl (DatabaseError ''Failed to recover run''), s1))"

subsection \<open>StateManager: executions\<close>

text \<open>
  \<open>StateManager.create_execution\<close> (state.py lines 326-360). The row is committed
  before \<open>ExecutionState(...)\<close> validates it.
\<close>

definition create_execution :: "ident \<Rightarrow> int \<Rightarrow> string \<Rightarrow> store \<Rightarrow> execution_row result" where
  "create_execution phase_id pass_number execution_mode s =
     (case uuid_uuid4 s of
        (execution_id, s1) \<Rightarrow>
          (case datetime_now s1 of
             (now, s2) \<Rightarrow>
               (let row = \<lparr>e_execution_id = execution_id, e_phase_id = phase_id,
                           e_pass_number = pass_number, e_started_at = now,
                           e_completed_at = None, e_status = ''running'',
                           e_copilot_summary = None, e_execution_mode = execution_mode,
                           e_error_message = None\<rparr>
                in if \<not> (check_executions_status (e_status row) \<and>
                           check_executions_mode (e_execution_mode row))
                   then (Inl (DatabaseError ''Failed to create execution''), s2)
                   else if ExecutionState_valid row
                   then (Inr row, s2\<lparr>db_executions := db_executions s2 @ [row]\<rparr>)
                   else (Inl (DatabaseError ''Failed to create execution''),
                         s2\<lparr>db_executions := db_executions s2 @ [row]\<rparr>))))"

text \<open>\<open>StateManager.complete_execution\<close> (state.py lines 362-382).\<close>

definition complete_execution :: "ident \<Rightarrow> string \<Rightarrow> store \<Rightarrow> unit result" where
  "complete_execution execution_id copilot_summary s =
     (case datetime_now s of
        (now, s1) \<Rightarrow>
          (Inr (), s1\<lparr>db_executions :=
             map (\<lambda>e. if e_execution_id e = execution_id
                       then e\<lparr>e_status := ''completed'', e_completed_at := Some now,
                              e_copilot_summary := Some copilot_summary\<rparr>
                       else e)
                 (db_executions s1)\<rparr>))"

text \<open>\<open>StateManager.fail_execution\<close> (state.py lines 384-398).\<close>

definition fail_execution :: "ident \<Rightarrow> string \<Rightarrow> store \<Rightarrow> unit result" where
  "fail_execution execution_id err s =
     (case datetime_now s of
        (now, s1) \<Rightarrow>
          (Inr (), s1\<lparr>db_executions :=
             map (\<lambda>e. if e_execution_id e = execution_id
                       then e\<lparr>e_status := ''failed'', e_completed_at := Some now,
                              e_error_message := Some err\<rparr>
                       else e)
                 (db_executions s1)\<rparr>))"

text \<open>\<open>StateManager.get_executions_for_phase\<close> (state.py lines 400-411).\<close>

definition get_executions_for_phase :: "ident \<Rightarrow> store \<Rightarrow> execution_row list result" where
  "get_executions_for_phase phase_id s =
     (let rows = sort_key e_pass_number (filter (\<lambda>e. e_phase_id e = phase_id) (db_executions s))
      in if list_all ExecutionState_valid rows then (Inr rows, s)
         else (Inl (DatabaseError ''Failed to get executions''), s))"

subsection \<open>StateManager: findings\<close>

text \<open>
  The signature of \<open>StateManager.add_finding\<close> (state.py lines 415-424):
  \<open>execution_id, severity, category, title, description, evidence\<close> are required and
  \<open>suggested_fix\<close> defaults to \<open>None\<close>. Every caller passes keyword arguments; a
  keyword the signature lacks, or a required parameter not passed, raises
  \<open>TypeError\<close> at the call, before the body runs.
\<close>

definition add_finding_parameters :: "string list" where
  "add_finding_parameters =
     [''execution_id'', ''severity'', ''category'', ''title'', ''description'', ''evidence'',
      ''suggested_fix'']"

definition add_finding_required :: "string list" where
  "add_finding_required =
     [''execution_id'', ''severity'', ''category'', ''title'', ''description'', ''evidence'']"

definition bind_keywords :: "string list \<Rightarrow> string list \<Rightarrow> (string \<times> pyval) list \<Rightarrow> error option" where
  "bind_keywords parameters required kwargs =
     (case find (\<lambda>k. k \<notin> set parameters) (map fst kwargs) of
        Some k \<Rightarrow> Some (TypeError (''unexpected keyword argument '' @ k))
      | None \<Rightarrow>
          (case find (\<lambda>k. k \<notin> set (map fst kwargs)) required of
             Some k \<Rightarrow> Some (TypeError (''missing required argument '' @ k))
           | None \<Rightarrow> None))"

definition kwarg :: "(string \<times> pyval) list \<Rightarrow> string \<Rightarrow> pyval" where
  "kwarg kwargs k = (case map_of kwargs k of None \<Rightarrow> PNone | Some v \<Rightarrow> v)"

text \<open>
  schema.py lines 73-78: \<open>execution_id\<close>, \<open>title\<close>, \<open>description\<close> and
  \<open>evidence\<close> are \<open>NOT NULL\<close>, as are \<open>severity\<close> and \<open>category\<close>, for
  which the membership test of their \<open>CHECK\<close> stands here (it is false of
  \<open>PNone\<close>).
\<close>

definition findings_not_null :: "finding_row \<Rightarrow> bool" where
  "findings_not_null row \<longleftrightarrow>
     f_execution_id row \<noteq> PNone \<and> f_title row \<noteq> PNone \<and>
     f_description row \<noteq> PNone \<and> f_evidence row \<noteq> PNone"

text \<open>
  \<open>Finding(...)\<close> (models.py lines 176-205): the fields typed \<open>str\<close> take a
  string only, \<open>suggested_fix\<close> a string or \<open>None\<close>.
\<close>

definition is_str :: "pyval \<Rightarrow> bool" where
  "is_str v = (case v of PStr _ \<Rightarrow> True | PId _ \<Rightarrow> True | _ \<Rightarrow> False)"

definition Finding_valid :: "finding_row \<Rightarrow> bool" where
  "Finding_valid row \<longleftrightarrow>
     is_str (f_execution_id row) \<and>
     f_severity row \<in> set [PStr ''major'', PStr ''medium'', PStr ''minor''] \<and>
     f_category row \<in> set [PStr ''build'', PStr ''test'', PStr ''lint'', PStr ''security'',
                             PStr ''spec_validation'', PStr ''custom''] \<and>
     is_str (f_title row) \<and> is_str (f_description row) \<and> is_str (f_evidence row) \<and>
     (f_suggested_fix row = PNone \<or> is_str (f_suggested_fix row))"

text \<open>
  \<open>StateManager.add_finding\<close> (state.py lines 415-454). The row is committed before
  \<open>Finding(...)\<close> is built, so a value the model refuses raises with the row
  inserted.
\<close>

definition add_finding :: "(string \<times> pyval) list \<Rightarrow> store \<Rightarrow> finding_row result" where
  "add_finding kwargs s =
     (case bind_keywords add_finding_parameters add_finding_required kwargs of
        Some e \<Rightarrow> (Inl e, s)
      | None \<Rightarrow>
          (case uuid_uuid4 s of
             (finding_id, s1) \<Rightarrow>
               (case datetime_now s1 of
                  (now, s2) \<Rightarrow>
                    (let row = \<lparr>f_finding_id = finding_id,
                                f_execution_id = kwarg kwargs ''execution_id'',
                                f_severity = kwarg kwargs ''severity'',
                                f_category = kwarg kwargs ''category'',
                                f_title = kwarg kwargs ''title'',
                                f_description = kwarg kwargs ''description'',
                                f_evidence = kwarg kwargs ''evidence'',
                                f_suggested_fix = kwarg kwargs ''suggested_fix'',
                                f_created_at = now\<rparr>
                     in if findings_not_null row \<and>
                           check_findings_severity (f_severity row) \<and>
                           check_findings_category (f_category row)
                        then (let s3 = s2\<lparr>db_findings := db_findings s2 @ [row]\<rparr>
                              in if Finding_valid row then (Inr row, s3)
                                 else (Inl (DatabaseError ''Failed to add finding''), s3))
                        else (Inl (DatabaseError ''Failed to add finding''), s2)))))"

subsection \<open>StateManager: artifacts\<close>

text \<open>
  \<open>StateManager.register_artifact\<close> (state.py lines 536-574). The \<open>CHECK\<close> of
  \<open>artifacts.artifact_type\<close> rejects every type outside its five values.
\<close>

definition register_artifact :: "ident \<Rightarrow> string \<Rightarrow> ident option \<Rightarrow> store \<Rightarrow> artifact_row result" where
  "register_artifact run_id artifact_type phase_id s =
     (case uuid_uuid4 s of
        (artifact_id, s1) \<Rightarrow>
          (case datetime_now s1 of
             (now, s2) \<Rightarrow>
               (let row = \<lparr>a_artifact_id = artifact_id, a_run_id = run_id,
                           a_phase_id = phase_id, a_artifact_type = artifact_type,
                           a_created_at = now\<rparr>
                in if check_artifacts_type artifact_type
                   then (Inr row, s2\<lparr>db_artifacts := db_artifacts s2 @ [row]\<rparr>)
                   else (Inl (DatabaseError ''Failed to register artifact''), s2))))"

subsection \<open>StateManager: manual interventions\<close>

text \<open>\<open>StateManager.create_intervention\<close> (state.py lines 626-653).\<close>

definition create_intervention :: "ident \<Rightarrow> string \<Rightarrow> store \<Rightarrow> intervention_row result" where
  "create_intervention phase_id reason s =
     (case uuid_uuid4 s of
        (intervention_id, s1) \<Rightarrow>
          (case datetime_now s1 of
             (now, s2) \<Rightarrow>
               (let row = \<lparr>mi_intervention_id = intervention_id, mi_phase_id = phase_id,
                           mi_created_at = now, mi_reason = reason, mi_action_taken = None,
                           mi_notes = None, mi_resolved_at = None\<rparr>
                in if check_interventions_reason reason \<and>
                      check_interventions_action (mi_action_taken row)
                   then (Inr row,
                         s2\<lparr>db_manual_interventions := db_manual_interventions s2 @ [row]\<rparr>)
                   else (Inl (DatabaseError ''Failed to create intervention''), s2))))"

text \<open>
  \<open>StateManager.resolve_intervention\<close> (state.py lines 655-674): one \<open>UPDATE\<close>
  that writes \<open>action_taken\<close>, \<open>notes\<close> and \<open>resolved_at\<close> together.
\<close>

definition resolve_intervention :: "ident \<Rightarrow> string \<Rightarrow> string option \<Rightarrow> store \<Rightarrow> unit result" where
  "resolve_intervention intervention_id action notes s =
     (case datetime_now s of
        (now, s1) \<Rightarrow>
          (case sql_update (\<lambda>i. mi_intervention_id i = intervention_id)
                  (\<lambda>i. i\<lparr>mi_action_taken := Some action, mi_notes := notes,
                         mi_resolved_at := Some now\<rparr>)
                  (\<lambda>i. check_interventions_action (mi_action_taken i))
                  (db_manual_interventions s1) of
             None \<Rightarrow> (Inl (DatabaseError ''Failed to resolve intervention''), s1)
           | Some rows \<Rightarrow> (Inr (), s1\<lparr>db_manual_interventions := rows\<rparr>)))"

text \<open>
  \<open>StateManager.get_pending_interventions\<close> (state.py lines 676-690): the
  interventions of the run's phases with \<open>resolved_at IS NULL\<close>, by \<open>created_at\<close>.
\<close>

definition get_pending_interventions :: "ident \<Rightarrow> store \<Rightarrow> intervention_row list result" where
  "get_pending_interventions run_id s =
     (let rows = sort_key mi_created_at
                   (filter (\<lambda>i. mi_resolved_at i = None \<and>
                                 list_ex (\<lambda>p. p_phase_id p = mi_phase_id i \<and> p_run_id p = run_id)
                                   (db_phases s))
                      (db_manual_interventions s))
      in if list_all ManualIntervention_valid rows then (Inr rows, s)
         else (Inl (DatabaseError ''Failed to get pending interventions''), s))"

section \<open>The Generation Service interface (agents/copilot_interface.py)\<close>

text \<open>
  A patch of the change-set is a dictionary that should hold a \<open>file\<close> and a
  \<open>diff\<close>; either key may be missing. The JSON object the CLI printed is read
  through \<open>json_output.get\<close>; it is taken well-typed for
  \<open>CopilotExecutionResult\<close> (agents/copilot_models.py lines 36-52), with \<open>None\<close>
  for a key the object lacks and \<open>j_other_keys\<close> for the keys not read below.
\<close>

record patch =
  patch_file :: "string option"
  patch_diff :: "string option"

record copilot_json =
  j_patches :: "patch list option"
  j_changes_summary :: "string option"
  j_files_modified :: "string list option"
  j_files_created :: "string list option"
  j_completion_status :: "string option"
  j_other_keys :: "string list"

text \<open>\<open>if json_output:\<close> is the truth value of a dictionary: it has a key.\<close>

definition json_truthy :: "copilot_json \<Rightarrow> bool" where
  "json_truthy j \<longleftrightarrow>
     j_patches j \<noteq> None \<or> j_changes_summary j \<noteq> None \<or> j_files_modified j \<noteq> None \<or>
     j_files_created j \<noteq> None \<or> j_completion_status j \<noteq> None \<or> j_other_keys j \<noteq> []"

datatype CopilotErrorType = TIMEOUT | NOT_FOUND | EXECUTION_ERROR | PARSE_ERROR | AUTH_ERROR

text \<open>
  \<open>CopilotExecutionResult\<close>, without \<open>execution_time\<close>, \<open>raw_output\<close>,
  \<open>tests_added\<close> and \<open>potential_issues\<close>, which no modelled branch reads.
\<close>

record CopilotExecutionResult =
  cr_success :: bool
  cr_output_path :: "string option"
  cr_summary :: "string option"
  cr_files_modified :: "string list"
  cr_files_created :: "string list"
  cr_error_message :: "string option"
  cr_error_type :: "CopilotErrorType option"
  cr_changes_summary :: "string option"
  cr_completion_status :: "string option"
  cr_patches :: "patch list"

text \<open>A result built with \<open>success=False\<close> and every other field at its default.\<close>

definition failed_result :: "string \<Rightarrow> CopilotErrorType option \<Rightarrow> CopilotExecutionResult" where
  "failed_result msg ty =
     \<lparr>cr_success = False, cr_output_path = None, cr_summary = None, cr_files_modified = [],
      cr_files_created = [], cr_error_message = Some msg, cr_error_type = ty,
      cr_changes_summary = None, cr_completion_status = None, cr_patches = []\<rparr>"

text \<open>
  What the subprocess did: \<open>create_subprocess_exec\<close> raised \<open>FileNotFoundError\<close>,
  something else raised inside the \<open>try\<close>, the wait timed out, or the process
  exited with a return code. For an exit, the two flags say whether the lower-cased
  standard error contains \<open>not found\<close> and \<open>auth\<close>, and the last component is
  what \<open>json.loads\<close> or \<open>_extract_json_from_output\<close> made of standard output
  (\<open>None\<close> when neither found JSON).
\<close>

datatype cli_outcome =
    CliMissing
  | CliRaised string
  | CliTimedOut
  | CliExited int bool bool "copilot_json option"

text \<open>
  \<open>CopilotCLIInterface.execute_spec\<close> (lines 248-529), from the outcome of the
  subprocess on. The interpolated numbers of the messages (timeout, exit code) are left
  out of the strings. Writes to the artifact directory are taken to succeed.
\<close>

definition execute_spec :: "cli_outcome \<Rightarrow> CopilotExecutionResult" where
  "execute_spec outcome =
     (case outcome of
        CliMissing \<Rightarrow> failed_result ''GitHub CLI not found'' (Some NOT_FOUND)
      | CliRaised e \<Rightarrow>
          failed_result (''Unexpected error executing Copilot CLI: '' @ e) (Some EXECUTION_ERROR)
      | CliTimedOut \<Rightarrow> failed_result ''Copilot execution timed out'' (Some TIMEOUT)
      | CliExited returncode not_found auth json_output \<Rightarrow>
          if returncode \<noteq> 0 then
            failed_result ''Copilot CLI failed with exit code''
              (Some (if not_found then NOT_FOUND else if auth then AUTH_ERROR
                     else EXECUTION_ERROR))
          else
            (case json_output of
               None \<Rightarrow>
                 failed_result ''Copilot did not return JSON output as required''
                   (Some PARSE_ERROR)
             | Some j \<Rightarrow>
                 if json_truthy j then
                   (let patches = (case j_patches j of None \<Rightarrow> [] | Some ps \<Rightarrow> ps);
                        result =
                          \<lparr>cr_success = True,
                           cr_output_path = Some ''copilot_output.json'',
                           cr_summary = j_changes_summary j,
                           cr_files_modified =
                             (case j_files_modified j of None \<Rightarrow> [] | Some fs \<Rightarrow> fs),
                           cr_files_created =
                             (case j_files_created j of None \<Rightarrow> [] | Some fs \<Rightarrow> fs),
                           cr_error_message = None, cr_error_type = None,
                           cr_changes_summary = j_changes_summary j,
                           cr_completion_status = j_completion_status j,
                           cr_patches = patches\<rparr>
                    in if cr_patches result = [] then
                         (failed_result
                            ''No actionable changes generated - patches field is empty''
                            (Some EXECUTION_ERROR))
                           \<lparr>cr_completion_status := Some ''blocked''\<rparr>
                       else result)
                 else
                   failed_result ''Copilot did not return JSON output as required''
                     (Some PARSE_ERROR)))"

section \<open>Verification results (orchestrator/verification_models.py)\<close>

text \<open>
  A \<open>Finding\<close> as \<open>_create_finding\<close> builds it, and what the enabled checks of
  one verification pass produced: the external commands and the judgement model are
  outside the engine, so their findings are an input.
\<close>

record finding =
  fd_severity :: string
  fd_category :: string
  fd_title :: string
  fd_description :: string
  fd_evidence :: string
  fd_suggested_fix :: "string option"

record check_report =
  ck_all_findings :: "finding list"
  ck_checks_run :: "string list"
  ck_failed_checklist_items :: "string list"

text \<open>\<open>VerificationResult\<close>, without \<open>execution_time\<close> and \<open>spec_compliance\<close>.\<close>

record VerificationResult =
  vr_passed :: bool
  vr_findings :: "finding list"
  vr_findings_summary :: counts
  vr_failed_checklist_items :: "string list"
  vr_checks_run :: "string list"

section \<open>The phase executor (orchestrator/executor.py)\<close>

text \<open>
  What a \<open>PhaseExecutor\<close> holds and what its collaborators answer. The first group
  is the executor's own state: \<open>config.execution.max_retries\<close> and
  \<open>copilot_mode\<close>, whether \<open>self.git_repo\<close> and \<open>self.copilot_interface\<close> are
  set, and the thresholds of its \<open>VerificationConfig\<close>. The rest are the answers of
  the world outside the engine, by pass number (and patch index): the exception raised
  while rendering the specification or the prompt, what the CLI did, whether the prompt
  file, the patches directory and a patch file exist, whether \<open>git apply\<close> accepts a
  patch, and what the checks found. Writes to the artifact directory and git operations
  other than \<open>git apply\<close> do not touch the store and are taken to succeed.
\<close>

record env =
  max_retries :: nat
  copilot_mode :: string
  git_repo :: bool
  copilot_interface :: bool
  environment_valid :: bool
  thresholds :: counts
  spec_error :: "nat \<Rightarrow> error option"
  prompt_error :: "nat \<Rightarrow> error option"
  cli :: "nat \<Rightarrow> cli_outcome"
  prompt_file_exists :: "nat \<Rightarrow> bool"
  patches_dir_exists :: "nat \<Rightarrow> bool"
  patch_file_exists :: "nat \<Rightarrow> nat \<Rightarrow> bool"
  git_apply :: "nat \<Rightarrow> nat \<Rightarrow> bool"
  checks :: "nat \<Rightarrow> check_report"

subsection \<open>Errors and escalation\<close>

text \<open>\<open>PhaseExecutor.report_phase_progress\<close> (lines 1062-1086): a read and a log line.\<close>

definition report_phase_progress :: "ident \<Rightarrow> store \<Rightarrow> unit result" where
  "report_phase_progress phase_id s = bind (get_phase phase_id s) (\<lambda>phase s1. (Inr (), s1))"

text \<open>\<open>PhaseExecutor.handle_execution_error\<close> (lines 1134-1168).\<close>

definition handle_execution_error :: "ident \<Rightarrow> store \<Rightarrow> unit result" where
  "handle_execution_error phase_id s =
     bind (get_phase phase_id s) (\<lambda>phase s1.
       case phase of
         None \<Rightarrow> (Inr (), s1)
       | Some _ \<Rightarrow> update_phase_status phase_id ''failed'' None None s1)"

text \<open>\<open>PhaseExecutor.handle_manual_intervention\<close> (lines 969-996).\<close>

definition handle_manual_intervention :: "ident \<Rightarrow> store \<Rightarrow> ident result" where
  "handle_manual_intervention phase_id s =
     bind (get_phase phase_id s) (\<lambda>phase s1.
       case phase of
         None \<Rightarrow> (Inl (ValueError ''Phase not found''), s1)
       | Some phase \<Rightarrow>
           bind (create_intervention phase_id ''max_retries_exceeded'' s1) (\<lambda>intervention s2.
           bind (update_phase_status phase_id ''paused'' None None s2) (\<lambda>_ s3.
           bind (update_run_status (p_run_id phase) ''paused'' None s3) (\<lambda>_ s4.
             (Inr (mi_intervention_id intervention), s4)))))"

text \<open>
  \<open>PhaseExecutor.resume_phase\<close> (lines 998-1060). \<open>spec_path_ok\<close> is
  \<open>modified_spec_path and os.path.exists(modified_spec_path)\<close>. The strings passed to
  \<open>resolve_intervention\<close> are those of the source: \<open>resumed\<close>, \<open>skipped\<close>,
  \<open>modified_spec\<close>, \<open>aborted\<close>.
\<close>

definition resume_phase :: "ident \<Rightarrow> string \<Rightarrow> bool \<Rightarrow> store \<Rightarrow> unit result" where
  "resume_phase phase_id action spec_path_ok s =
     bind (get_phase phase_id s) (\<lambda>phase s1.
       case phase of
         None \<Rightarrow> (Inl (ValueError ''Phase not found''), s1)
       | Some phase \<Rightarrow>
           bind (get_pending_interventions (p_run_id phase) s1) (\<lambda>interventions s2.
             case find (\<lambda>i. mi_phase_id i = phase_id) interventions of
               None \<Rightarrow> (Inr (), s2)
             | Some active_intervention \<Rightarrow>
                 if action = ''resume'' then
                   bind (update_phase_status phase_id ''in_progress'' None None s2) (\<lambda>_ s3.
                   bind (update_run_status (p_run_id phase) ''executing'' None s3) (\<lambda>_ s4.
                     resolve_intervention (mi_intervention_id active_intervention)
                       ''resumed'' None s4))
                 else if action = ''skip'' then
                   bind (update_phase_status phase_id ''skipped'' None None s2) (\<lambda>_ s3.
                     resolve_intervention (mi_intervention_id active_intervention)
                       ''skipped'' None s3)
                 else if action = ''modify_spec'' then
                   (if \<not> spec_path_ok then
                      (Inl (ValueError ''Valid modified_spec_path required for modify_spec action''),
                       s2)
                    else
                      bind (update_phase_status phase_id ''in_progress'' None None s2) (\<lambda>_ s3.
                      bind (update_run_status (p_run_id phase) ''executing'' None s3) (\<lambda>_ s4.
                        resolve_intervention (mi_intervention_id active_intervention)
                          ''modified_spec'' None s4)))
                 else if action = ''abort'' then
                   bind (update_phase_status phase_id ''failed'' None None s2) (\<lambda>_ s3.
                   bind (update_run_status (p_run_id phase) ''aborted'' None s3) (\<lambda>_ s4.
                     resolve_intervention (mi_intervention_id active_intervention)
                       ''aborted'' None s4))
                 else (Inl (ValueError ''Invalid action''), s2)))"

text \<open>
  \<open>PhaseExecutor.recover_execution\<close> (lines 1170-1198). The value returned for the
  first phase found is \<open>phase.id\<close>.
\<close>

definition recover_execution :: "ident \<Rightarrow> store \<Rightarrow> ident option result" where
  "recover_execution run_id s =
     bind (get_run run_id s) (\<lambda>run s1.
       case run of
         None \<Rightarrow> (Inr None, s1)
       | Some run \<Rightarrow>
           if r_status run \<notin> set [''executing'', ''paused''] then (Inr None, s1)
           else
             bind (get_phases_for_run run_id s1) (\<lambda>phases s2.
               case find (\<lambda>phase. p_status phase \<in> set [''in_progress'', ''paused''])
                      (sort_key p_phase_number phases) of
                 None \<Rightarrow> (Inr None, s2)
               | Some phase \<Rightarrow>
                   (case PhaseState_id phase of
                      Inl e \<Rightarrow> (Inl e, s2)
                    | Inr phase_id \<Rightarrow> (Inr (Some phase_id), s2))))"

subsection \<open>Verification of a pass\<close>

text \<open>
  The tail of \<open>PhaseVerifier.verify_phase_execution\<close> (verifier.py lines 195-232),
  from the findings of the checks on: the summary counts them by severity, each finding
  is persisted with \<open>add_finding\<close> inside a \<open>try\<close> whose handler only logs, and the
  verdict is \<open>_check_findings_thresholds\<close> of the summary.
\<close>

definition findings_summary_of :: "finding list \<Rightarrow> counts" where
  "findings_summary_of all_findings =
     [''major'' \<mapsto> int (length (filter (\<lambda>f. fd_severity f = ''major'') all_findings)),
      ''medium'' \<mapsto> int (length (filter (\<lambda>f. fd_severity f = ''medium'') all_findings)),
      ''minor'' \<mapsto> int (length (filter (\<lambda>f. fd_severity f = ''minor'') all_findings))]"

fun persist_findings :: "ident \<Rightarrow> finding list \<Rightarrow> store \<Rightarrow> store" where
  "persist_findings execution_id [] s = s"
| "persist_findings execution_id (f # fs) s =
     persist_findings execution_id fs
       (snd (add_finding
               [(''execution_id'', PId execution_id), (''severity'', PStr (fd_severity f)),
                (''category'', PStr (fd_category f)), (''title'', PStr (fd_title f)),
                (''description'', PStr (fd_description f)),
                (''evidence'', PStr (fd_evidence f)),
                (''suggested_fix'',
                   (case fd_suggested_fix f of None \<Rightarrow> PNone | Some x \<Rightarrow> PStr x))] s))"

definition verify_phase_execution :: "env \<Rightarrow> ident \<Rightarrow> nat \<Rightarrow> store \<Rightarrow> VerificationResult result" where
  "verify_phase_execution env execution_id pass_number s =
     (let report = checks env pass_number;
          all_findings = ck_all_findings report;
          findings_summary = findings_summary_of all_findings;
          s1 = persist_findings execution_id all_findings s
      in case check_findings_thresholds (thresholds env) findings_summary of
           Inl e \<Rightarrow> (Inl e, s1)
         | Inr passed \<Rightarrow>
             (Inr \<lparr>vr_passed = passed, vr_findings = all_findings,
                   vr_findings_summary = findings_summary,
                   vr_failed_checklist_items = ck_failed_checklist_items report,
                   vr_checks_run = ck_checks_run report\<rparr>, s1))"

text \<open>\<open>max(executions, key=lambda e: e.started_at)\<close>: the first of the latest ones.\<close>

fun latest_execution :: "execution_row list \<Rightarrow> execution_row option" where
  "latest_execution [] = None"
| "latest_execution (e # es) =
     (case latest_execution es of
        None \<Rightarrow> Some e
      | Some m \<Rightarrow> if e_started_at m > e_started_at e then Some m else Some e)"

text \<open>
  \<open>PhaseExecutor._run_verification\<close> (lines 1200-1302). With no execution of the
  phase it returns a passed result at once; otherwise it verifies the latest execution
  and registers the two findings reports as artifacts.
\<close>

definition run_verification :: "env \<Rightarrow> phase_row \<Rightarrow> nat \<Rightarrow> store \<Rightarrow> VerificationResult result" where
  "run_verification env phase pass_number s =
     bind (get_executions_for_phase (p_phase_id phase) s) (\<lambda>executions s1.
       case latest_execution executions of
         None \<Rightarrow>
           (Inr \<lparr>vr_passed = True, vr_findings = [],
                 vr_findings_summary = [''major'' \<mapsto> 0, ''medium'' \<mapsto> 0, ''minor'' \<mapsto> 0],
                 vr_failed_checklist_items = [], vr_checks_run = []\<rparr>, s1)
       | Some latest \<Rightarrow>
           bind (verify_phase_execution env (e_execution_id latest) pass_number s1)
             (\<lambda>verification_result s2.
           bind (register_artifact (p_run_id phase) ''findings_report_md''
                   (Some (p_phase_id phase)) s2) (\<lambda>_ s3.
           bind (register_artifact (p_run_id phase) ''findings_report_json''
                   (Some (p_phase_id phase)) s3) (\<lambda>_ s4.
             (Inr verification_result, s4)))))"

text \<open>
  \<open>PhaseExecutor._handle_verification_failure\<close> (lines 1304-1367). The artifact
  directory is built from \<open>phase.id\<close> first (line 1338).
\<close>

definition handle_verification_failure :: "phase_row \<Rightarrow> store \<Rightarrow> bool result" where
  "handle_verification_failure phase s =
     (case PhaseState_id phase of
        Inl e \<Rightarrow> (Inl e, s)
      | Inr phase_id \<Rightarrow>
          bind (get_executions_for_phase phase_id s) (\<lambda>executions s1.
          bind (register_artifact (p_run_id phase) ''feedback_spec''
                  (Some (p_phase_id phase)) s1) (\<lambda>_ s2.
            (Inr True, s2))))"

subsection \<open>Applying the change-set\<close>

text \<open>
  The loop of \<open>PhaseExecutor._apply_copilot_patches\<close> (lines 678-708): per patch, in
  order, a malformed patch and a missing patch file are recorded as failed, an accepted
  \<open>git apply\<close> as applied and a rejected one as failed.
\<close>

datatype failed_patch = InvalidFormat nat | PatchFileNotFound string | ApplyFailed string

fun apply_patches :: "env \<Rightarrow> nat \<Rightarrow> nat \<Rightarrow> patch list \<Rightarrow> string list \<times> failed_patch list" where
  "apply_patches env pass_number idx [] = ([], [])"
| "apply_patches env pass_number idx (p # ps) =
     (case apply_patches env pass_number (Suc idx) ps of
        (applied_patches, failed_patches) \<Rightarrow>
          (case patch_file p of
             None \<Rightarrow> (applied_patches, InvalidFormat idx # failed_patches)
           | Some file \<Rightarrow>
               (case patch_diff p of
                  None \<Rightarrow> (applied_patches, InvalidFormat idx # failed_patches)
                | Some _ \<Rightarrow>
                    if \<not> patch_file_exists env pass_number idx
                    then (applied_patches, PatchFileNotFound file # failed_patches)
                    else if git_apply env pass_number idx
                    then (file # applied_patches, failed_patches)
                    else (applied_patches, ApplyFailed file # failed_patches))))"

text \<open>
  \<open>PhaseExecutor._apply_copilot_patches\<close> (lines 646-755). When a patch failed, the
  call of lines 739-747 passes \<open>add_finding\<close> the keywords \<open>phase_id\<close> (read as
  \<open>phase.id\<close>), \<open>pass_number\<close>, \<open>severity\<close>, \<open>title\<close>, \<open>description\<close>,
  \<open>evidence\<close> and \<open>suggested_fix\<close>. The handler of line 753 turns any exception of
  the body into \<open>return False\<close>.
\<close>

definition apply_copilot_patches ::
  "env \<Rightarrow> phase_row \<Rightarrow> CopilotExecutionResult \<Rightarrow> nat \<Rightarrow> store \<Rightarrow> bool result" where
  "apply_copilot_patches env phase result pass_number s =
     (if \<not> git_repo env then (Inr False, s)
      else if cr_patches result = [] then (Inr False, s)
      else if \<not> patches_dir_exists env pass_number then (Inr False, s)
      else
        catch
          (case apply_patches env pass_number 0 (cr_patches result) of
             (applied_patches, failed_patches) \<Rightarrow>
               if failed_patches \<noteq> [] then
                 (case PhaseState_id phase of
                    Inl e \<Rightarrow> (Inl e, s)
                  | Inr phase_id \<Rightarrow>
                      bind (add_finding
                              [(''phase_id'', PId phase_id),
                               (''pass_number'', PInt (int pass_number)),
                               (''severity'', PStr ''major''),
                               (''title'', PStr ''Patch application failures''),
                               (''description'', PStr ''Failed to apply patches''),
                               (''evidence'', PStr ''failed_patches''),
                               (''suggested_fix'',
                                  PStr ''Review patch conflicts and regenerate patches with proper context'')]
                              s)
                        (\<lambda>_ s1. (Inr False, s1)))
               else (Inr True, s))
          (\<lambda>e s1. (Inr False, s1)))"

subsection \<open>One pass: specification, generation, patches\<close>

text \<open>
  \<open>PhaseExecutor.generate_phase_spec\<close> (lines 318-431): the phase is loaded, the
  specification rendered and written (\<open>spec_error\<close> is the exception of that part,
  if any) and registered as a \<open>spec\<close> artifact.
\<close>

definition generate_phase_spec :: "env \<Rightarrow> ident \<Rightarrow> nat \<Rightarrow> store \<Rightarrow> unit result" where
  "generate_phase_spec env phase_id pass_number s =
     bind (get_phase phase_id s) (\<lambda>phase s1.
       case phase of
         None \<Rightarrow> (Inl (ValueError ''Phase not found''), s1)
       | Some phase \<Rightarrow>
           (case spec_error env pass_number of
              Some e \<Rightarrow> (Inl e, s1)
            | None \<Rightarrow>
                bind (register_artifact (p_run_id phase) ''spec'' (Some phase_id) s1)
                  (\<lambda>_ s2. (Inr (), s2))))"

text \<open>
  \<open>PhaseExecutor.create_phase_branch\<close> (lines 863-904). In branch mode with a
  repository the branch is created and checked out, then the \<open>UPDATE\<close> of
  \<open>branch_name\<close> takes \<open>phase.id\<close> as its parameter; the handler of line 902
  returns the empty string for any exception. The text of the branch name is not
  modelled beyond being non-empty.
\<close>

definition create_phase_branch :: "env \<Rightarrow> phase_row \<Rightarrow> store \<Rightarrow> string result" where
  "create_phase_branch env phase s =
     (if copilot_mode env \<noteq> ''branch'' then (Inr [], s)
      else if \<not> git_repo env then (Inr [], s)
      else
        (case PhaseState_id phase of
           Inl e \<Rightarrow> (Inr [], s)
         | Inr phase_id \<Rightarrow>
             (Inr ''orchestrator/phase'',
              s\<lparr>db_phases :=
                   map (\<lambda>p. if p_phase_id p = phase_id
                             then p\<lparr>p_branch_name := Some ''orchestrator/phase''\<rparr> else p)
                       (db_phases s)\<rparr>)))"

text \<open>
  \<open>PhaseExecutor.execute_with_copilot\<close> (lines 433-580). Only \<open>CopilotCLIError\<close>
  is handled (line 564); every other exception leaves the method. The reads of
  \<open>_render_copilot_prompt\<close> and of the earlier findings are covered by
  \<open>prompt_error\<close>. The commit of branch mode (line 560) catches its own exceptions
  and does not touch the store. \<open>x or default\<close> of an optional string is
  \<open>or_default\<close>.
\<close>

definition or_default :: "string option \<Rightarrow> string \<Rightarrow> string" where
  "or_default x dflt = (case x of None \<Rightarrow> dflt | Some v \<Rightarrow> if v = [] then dflt else v)"

definition register_outputs ::
  "env \<Rightarrow> phase_row \<Rightarrow> CopilotExecutionResult \<Rightarrow> nat \<Rightarrow> store \<Rightarrow> unit result" where
  "register_outputs env phase result pass_number s =
     bind (if or_default (cr_output_path result) [] \<noteq> []
           then bind (register_artifact (p_run_id phase) ''copilot_output''
                        (Some (p_phase_id phase)) s) (\<lambda>_ s1. (Inr (), s1))
           else (Inr (), s))
       (\<lambda>_ s1.
          if prompt_file_exists env pass_number
          then bind (register_artifact (p_run_id phase) ''copilot_prompt''
                       (Some (p_phase_id phase)) s1) (\<lambda>_ s2. (Inr (), s2))
          else (Inr (), s1))"

text \<open>
  The body of the \<open>try\<close> of \<open>execute_with_copilot\<close> (lines 502-562): the CLI is
  run, the execution record closed, the outputs registered and, for a successful result
  with patches, the patches applied.
\<close>

definition copilot_attempt ::
  "env \<Rightarrow> phase_row \<Rightarrow> execution_row \<Rightarrow> nat \<Rightarrow> store \<Rightarrow> CopilotExecutionResult result" where
  "copilot_attempt env phase execution_state pass_number s =
     (let result = execute_spec (cli env pass_number) in
      bind (if cr_success result
            then complete_execution (e_execution_id execution_state)
                   (or_default (cr_summary result) []) s
            else fail_execution (e_execution_id execution_state)
                   (or_default (cr_error_message result) ''Unknown error'') s)
        (\<lambda>_ s1.
      bind (register_outputs env phase result pass_number s1) (\<lambda>_ s2.
        if cr_success result \<and> cr_patches result \<noteq> [] then
          bind (apply_copilot_patches env phase result pass_number s2)
            (\<lambda>patch_success s3.
              if \<not> patch_success then
                (Inr (result\<lparr>cr_success := False,
                       cr_error_message := Some ''Failed to apply one or more patches'',
                       cr_error_type := Some EXECUTION_ERROR\<rparr>), s3)
              else (Inr result, s3))
        else (Inr result, s2))))"

definition execute_with_copilot ::
  "env \<Rightarrow> ident \<Rightarrow> nat \<Rightarrow> store \<Rightarrow> CopilotExecutionResult result" where
  "execute_with_copilot env phase_id pass_number s =
     (if \<not> copilot_interface env
      then (Inr (failed_result ''Copilot CLI integration is disabled'' None), s)
      else
        bind (get_phase phase_id s) (\<lambda>phase s1.
          case phase of
            None \<Rightarrow> (Inl (ValueError ''Phase not found''), s1)
          | Some phase \<Rightarrow>
              (case prompt_error env pass_number of
                 Some e \<Rightarrow> (Inl e, s1)
               | None \<Rightarrow>
                   bind (create_execution phase_id (int pass_number)
                           (if copilot_mode env = ''branch'' then ''branch'' else ''direct'') s1)
                     (\<lambda>execution_state s2.
                        case copilot_attempt env phase execution_state pass_number s2 of
                          (Inl (CopilotCLIError msg), s3) \<Rightarrow>
                            bind (fail_execution (e_execution_id execution_state) msg s3)
                              (\<lambda>_ s4. (Inr (failed_result msg None), s4))
                        | other \<Rightarrow> other))))"

subsection \<open>The retry loop of one phase\<close>

text \<open>How one iteration of the \<open>for\<close> loop of \<open>execute_single_phase\<close> ends.\<close>

datatype loop_signal = Continue | Break | Return bool

text \<open>
  The body of the loop (lines 191-300) for one \<open>pass_number\<close>, in four parts.
  \<open>copilot_failed\<close> is the branch of lines 214-228 for a result that is not a
  success, \<open>verify_pass\<close> the rest of the \<open>try\<close> (lines 230-286), \<open>attempt_pass\<close>
  the whole \<open>try\<close> and \<open>pass_raised\<close> the handler of lines 288-300, which
  increments the retry count and, on the last pass, marks the phase failed and breaks.
  The progress report of line 193 stands before the \<open>try\<close>. \<open>phase\<close> is the object
  loaded before the loop. \<open>merge_phase_branch\<close> (line 284) catches its own exceptions
  and does not touch the store.
\<close>

definition copilot_failed :: "env \<Rightarrow> ident \<Rightarrow> nat \<Rightarrow> store \<Rightarrow> loop_signal result" where
  "copilot_failed env phase_id pass_number s =
     bind (increment_phase_retry phase_id s) (\<lambda>_ s1.
       if pass_number < max_retries env then
         bind (report_phase_progress phase_id s1) (\<lambda>_ s2. (Inr Continue, s2))
       else (Inl (Exception ''Copilot execution failed''), s1))"

definition verify_pass :: "env \<Rightarrow> ident \<Rightarrow> phase_row \<Rightarrow> nat \<Rightarrow> store \<Rightarrow> loop_signal result" where
  "verify_pass env phase_id phase pass_number s =
     bind (report_phase_progress phase_id s) (\<lambda>_ s1.
     bind (report_phase_progress phase_id s1) (\<lambda>_ s2.
     bind (run_verification env phase pass_number s2) (\<lambda>verification_result s3.
       if \<not> vr_passed verification_result then
         (if pass_number < max_retries env then
            bind (handle_verification_failure phase s3) (\<lambda>should_retry s4.
              if should_retry then
                bind (increment_phase_retry phase_id s4) (\<lambda>_ s5.
                bind (report_phase_progress phase_id s5) (\<lambda>_ s6.
                  (Inr Continue, s6)))
              else (Inl (Exception ''Verification failed''), s4))
          else (Inl (Exception ''Verification failed''), s3))
       else
         (case datetime_now s3 of
            (now, s4) \<Rightarrow>
              bind (update_phase_status phase_id ''completed'' None (Some now) s4)
                (\<lambda>_ s5. (Inr (Return True), s5))))))"

definition attempt_pass :: "env \<Rightarrow> ident \<Rightarrow> phase_row \<Rightarrow> nat \<Rightarrow> store \<Rightarrow> loop_signal result" where
  "attempt_pass env phase_id phase pass_number s =
     bind (generate_phase_spec env phase_id pass_number s) (\<lambda>_ s1.
     bind (report_phase_progress phase_id s1) (\<lambda>_ s2.
     bind (execute_with_copilot env phase_id pass_number s2) (\<lambda>copilot_result s3.
       if \<not> cr_success copilot_result
       then copilot_failed env phase_id pass_number s3
       else verify_pass env phase_id phase pass_number s3)))"

definition pass_raised :: "env \<Rightarrow> ident \<Rightarrow> nat \<Rightarrow> store \<Rightarrow> loop_signal result" where
  "pass_raised env phase_id pass_number s =
     bind (increment_phase_retry phase_id s) (\<lambda>_ s1.
       if pass_number = max_retries env then
         bind (handle_execution_error phase_id s1) (\<lambda>_ s2. (Inr Break, s2))
       else (Inr Continue, s1))"

definition execute_pass :: "env \<Rightarrow> ident \<Rightarrow> phase_row \<Rightarrow> nat \<Rightarrow> store \<Rightarrow> loop_signal result" where
  "execute_pass env phase_id phase pass_number s =
     bind (report_phase_progress phase_id s) (\<lambda>_ s1.
       catch (attempt_pass env phase_id phase pass_number s1)
         (\<lambda>e s2. pass_raised env phase_id pass_number s2))"

text \<open>
  \<open>for pass_number in range(1, max_retries + 1)\<close>: \<open>remaining\<close> counts the
  iterations left. The result is \<open>Some b\<close> when the body returned \<open>b\<close> and
  \<open>None\<close> when the loop ended by \<open>break\<close> or ran out.
\<close>

fun passes :: "env \<Rightarrow> ident \<Rightarrow> phase_row \<Rightarrow> nat \<Rightarrow> nat \<Rightarrow> store \<Rightarrow> bool option result" where
  "passes env phase_id phase pass_number 0 s = (Inr None, s)"
| "passes env phase_id phase pass_number (Suc remaining) s =
     (case execute_pass env phase_id phase pass_number s of
        (Inl e, s1) \<Rightarrow> (Inl e, s1)
      | (Inr (Return b), s1) \<Rightarrow> (Inr (Some b), s1)
      | (Inr Break, s1) \<Rightarrow> (Inr None, s1)
      | (Inr Continue, s1) \<Rightarrow> passes env phase_id phase (Suc pass_number) remaining s1)"

text \<open>
  \<open>PhaseExecutor.execute_single_phase\<close> (lines 161-316). \<open>cleanup_phase_branch\<close>
  (line 308) catches its own exceptions and does not touch the store; the phase is
  reloaded for it when a branch was created.
\<close>

definition execute_single_phase :: "env \<Rightarrow> ident \<Rightarrow> store \<Rightarrow> bool result" where
  "execute_single_phase env phase_id s =
     catch
       (bind (get_phase phase_id s) (\<lambda>phase s1.
          case phase of
            None \<Rightarrow> (Inr False, s1)
          | Some phase \<Rightarrow>
              (case datetime_now s1 of
                 (now, s2) \<Rightarrow>
                   bind (update_phase_status phase_id ''in_progress'' (Some now) None s2)
                     (\<lambda>_ s3.
                   bind (report_phase_progress phase_id s3) (\<lambda>_ s4.
                   bind (create_phase_branch env phase s4) (\<lambda>branch_name s5.
                   bind (passes env phase_id phase 1 (max_retries env) s5) (\<lambda>returned s6.
                     case returned of
                       Some b \<Rightarrow> (Inr b, s6)
                     | None \<Rightarrow>
                         bind (if branch_name \<noteq> []
                               then bind (get_phase phase_id s6) (\<lambda>_ s'. (Inr (), s'))
                               else (Inr (), s6)) (\<lambda>_ s7.
                         bind (handle_manual_intervention phase_id s7) (\<lambda>_ s8.
                           (Inr False, s8))))))))))
       (\<lambda>e s1. bind (handle_execution_error phase_id s1) (\<lambda>_ s2. (Inr False, s2)))"

subsection \<open>The run orchestrator\<close>

text \<open>
  \<open>PhaseExecutor.generate_execution_summary\<close> (lines 1088-1132): the phases are
  counted by status, then \<open>get_artifacts_for_phase(phase.id)\<close> is evaluated for each
  phase in turn. What the later reads return does not enter the modelled results.
\<close>

fun first_error :: "(error + 'a) list \<Rightarrow> error option" where
  "first_error [] = None"
| "first_error (Inl e # xs) = Some e"
| "first_error (Inr _ # xs) = first_error xs"

definition generate_execution_summary :: "ident \<Rightarrow> store \<Rightarrow> (string \<rightharpoonup> int) result" where
  "generate_execution_summary run_id s =
     bind (get_phases_for_run run_id s) (\<lambda>phases s1.
       case first_error (map PhaseState_id phases) of
         Some e \<Rightarrow> (Inl e, s1)
       | None \<Rightarrow>
           (Inr [''total_phases'' \<mapsto> int (length phases),
                 ''completed'' \<mapsto>
                    int (length (filter (\<lambda>p. p_status p = ''completed'') phases)),
                 ''failed'' \<mapsto> int (length (filter (\<lambda>p. p_status p = ''failed'') phases)),
                 ''skipped'' \<mapsto> int (length (filter (\<lambda>p. p_status p = ''skipped'') phases))],
            s1))"

text \<open>
  The loop of \<open>execute_phases\<close> (lines 132-148) over the sorted phases. The result
  is \<open>True\<close> when a failing phase ended the method by \<open>return\<close>. The phase is
  handed to \<open>execute_single_phase\<close> as \<open>phase.id\<close>.
\<close>

fun phase_loop :: "env \<Rightarrow> ident \<Rightarrow> phase_row list \<Rightarrow> store \<Rightarrow> bool result" where
  "phase_loop env run_id [] s = (Inr False, s)"
| "phase_loop env run_id (phase # rest) s =
     (if p_status phase = ''skipped'' then phase_loop env run_id rest s
      else
        (case PhaseState_id phase of
           Inl e \<Rightarrow> (Inl e, s)
         | Inr phase_id \<Rightarrow>
             (case execute_single_phase env phase_id s of
                (Inl e, s1) \<Rightarrow> (Inl e, s1)
              | (Inr success, s1) \<Rightarrow>
                  if \<not> success then
                    bind (get_run run_id s1) (\<lambda>run_state s2.
                      if (case run_state of None \<Rightarrow> False | Some r \<Rightarrow> r_status r = ''paused'')
                      then (Inr True, s2)
                      else bind (update_run_status run_id ''failed'' None s2)
                             (\<lambda>_ s3. (Inr True, s3)))
                  else phase_loop env run_id rest s1)))"

text \<open>\<open>PhaseExecutor.execute_phases\<close> (lines 103-159).\<close>

definition execute_phases :: "env \<Rightarrow> ident \<Rightarrow> store \<Rightarrow> unit result" where
  "execute_phases env run_id s =
     catch
       (bind (if copilot_interface env \<and> \<not> environment_valid env
              then bind (update_run_status run_id ''failed'' None s)
                     (\<lambda>_ s1. (Inl (Exception ''Copilot validation failed''), s1))
              else (Inr (), s)) (\<lambda>_ s1.
        bind (get_phases_for_run run_id s1) (\<lambda>phases s2.
          if phases = [] then (Inr (), s2)
          else
            bind (update_run_status run_id ''executing'' None s2) (\<lambda>_ s3.
            bind (phase_loop env run_id (sort_key p_phase_number phases) s3) (\<lambda>returned s4.
              if returned then (Inr (), s4)
              else
                bind (update_run_status run_id ''completed'' None s4) (\<lambda>_ s5.
                bind (generate_execution_summary run_id s5) (\<lambda>summary s6.
                  (Inr (), s6))))))))
       (\<lambda>e s1. bind (update_run_status run_id ''failed'' None s1) (\<lambda>_ s2. (Inl e, s2)))"

section \<open>Concrete stores and collaborators\<close>

text \<open>
  A run in status \<open>executing\<close> with one \<open>pending\<close> phase whose
  \<open>max_retries\<close> is 2, and an executor configured with \<open>max_retries = 2\<close> in
  direct mode. In \<open>disabled_env\<close> the executor has no Copilot interface
  (\<open>self.copilot_interface is None\<close>, the state \<open>__init__\<close> reaches when the
  configuration has no \<open>copilot\<close> attribute); in \<open>timeout_env\<close> it has one and the
  CLI times out on every pass.
\<close>

definition one_phase_store :: store where
  "one_phase_store =
     \<lparr>db_runs = [\<lparr>r_run_id = 1, r_updated_at = 0, r_status = ''executing'',
                   r_total_phases = 1, r_completed_phases = 0, r_current_phase_id = None,
                   r_error_message = None\<rparr>],
      db_phases = [\<lparr>p_phase_id = 10, p_run_id = 1, p_phase_number = 1,
                     p_status = ''pending'', p_started_at = None, p_completed_at = None,
                     p_branch_name = None, p_retry_count = 0, p_max_retries = 2\<rparr>],
      db_executions = [], db_findings = [], db_artifacts = [],
      db_manual_interventions = [], uuid4 = 100, clock = 5\<rparr>"

definition disabled_env :: env where
  "disabled_env =
     \<lparr>max_retries = 2, copilot_mode = ''direct'', git_repo = True,
      copilot_interface = False, environment_valid = True,
      thresholds = default_findings_thresholds,
      spec_error = (\<lambda>_. None), prompt_error = (\<lambda>_. None), cli = (\<lambda>_. CliTimedOut),
      prompt_file_exists = (\<lambda>_. True), patches_dir_exists = (\<lambda>_. True),
      patch_file_exists = (\<lambda>_ _. True), git_apply = (\<lambda>_ _. True),
      checks = (\<lambda>_. \<lparr>ck_all_findings = [], ck_checks_run = [],
                       ck_failed_checklist_items = []\<rparr>)\<rparr>"

definition timeout_env :: env where
  "timeout_env = disabled_env\<lparr>copilot_interface := True\<rparr>"

text \<open>
  The same run after an escalation as the code leaves it: the phase \<open>failed\<close> with an
  open \<open>max_retries_exceeded\<close> intervention.
\<close>

definition escalated_store :: store where
  "escalated_store =
     \<lparr>db_runs = [\<lparr>r_run_id = 1, r_updated_at = 0, r_status = ''executing'',
                   r_total_phases = 1, r_completed_phases = 0, r_current_phase_id = Some 10,
                   r_error_message = None\<rparr>],
      db_phases = [\<lparr>p_phase_id = 10, p_run_id = 1, p_phase_number = 1,
                     p_status = ''failed'', p_started_at = Some 5, p_completed_at = None,
                     p_branch_name = None, p_retry_count = 2, p_max_retries = 2\<rparr>],
      db_executions = [], db_findings = [], db_artifacts = [],
      db_manual_interventions =
        [\<lparr>mi_intervention_id = 106, mi_phase_id = 10, mi_created_at = 14,
          mi_reason = ''max_retries_exceeded'', mi_action_taken = None, mi_notes = None,
          mi_resolved_at = None\<rparr>],
      uuid4 = 107, clock = 15\<rparr>"

text \<open>
  A run with phase 1 \<open>completed\<close> and phase 2 \<open>in_progress\<close>, and a run whose
  phases 1 and 2 are both \<open>in_progress\<close>, phase 2 started later.
\<close>

definition recovery_store :: store where
  "recovery_store =
     \<lparr>db_runs = [\<lparr>r_run_id = 1, r_updated_at = 0, r_status = ''executing'',
                   r_total_phases = 2, r_completed_phases = 1, r_current_phase_id = Some 11,
                   r_error_message = None\<rparr>],
      db_phases = [\<lparr>p_phase_id = 10, p_run_id = 1, p_phase_number = 1,
                     p_status = ''completed'', p_started_at = Some 2, p_completed_at = Some 4,
                     p_branch_name = None, p_retry_count = 0, p_max_retries = 2\<rparr>,
                   \<lparr>p_phase_id = 11, p_run_id = 1, p_phase_number = 2,
                     p_status = ''in_progress'', p_started_at = Some 5, p_completed_at = None,
                     p_branch_name = None, p_retry_count = 0, p_max_retries = 2\<rparr>],
      db_executions = [], db_findings = [], db_artifacts = [],
      db_manual_interventions = [], uuid4 = 100, clock = 6\<rparr>"

definition two_active_store :: store where
  "two_active_store =
     \<lparr>db_runs = [\<lparr>r_run_id = 1, r_updated_at = 0, r_status = ''executing'',
                   r_total_phases = 2, r_completed_phases = 0, r_current_phase_id = Some 11,
                   r_error_message = None\<rparr>],
      db_phases = [\<lparr>p_phase_id = 10, p_run_id = 1, p_phase_number = 1,
                     p_status = ''in_progress'', p_started_at = Some 2, p_completed_at = None,
                     p_branch_name = None, p_retry_count = 0, p_max_retries = 2\<rparr>,
                   \<lparr>p_phase_id = 11, p_run_id = 1, p_phase_number = 2,
                     p_status = ''in_progress'', p_started_at = Some 5, p_completed_at = None,
                     p_branch_name = None, p_retry_count = 0, p_max_retries = 2\<rparr>],
      db_executions = [], db_findings = [], db_artifacts = [],
      db_manual_interventions = [], uuid4 = 100, clock = 6\<rparr>"

text \<open>
  A change-set of two patches and a world in which \<open>git apply\<close> accepts the first
  (index 0) and rejects the second (index 1).
\<close>

definition two_patches :: CopilotExecutionResult where
  "two_patches =
     \<lparr>cr_success = True, cr_output_path = Some ''copilot_output.json'', cr_summary = None,
      cr_files_modified = [], cr_files_created = [], cr_error_message = None,
      cr_error_type = None, cr_changes_summary = None, cr_completion_status = None,
      cr_patches = [\<lparr>patch_file = Some ''a.py'', patch_diff = Some ''diff a''\<rparr>,
                    \<lparr>patch_file = Some ''b.py'', patch_diff = Some ''diff b''\<rparr>]\<rparr>"

definition second_patch_rejected_env :: env where
  "second_patch_rejected_env = timeout_env\<lparr>git_apply := (\<lambda>pass_number idx. idx = 0)\<rparr>"

text \<open>
  The count the counter \<open>completed_phases\<close> is compared with: the phases of the run
  whose status is \<open>completed\<close>.
\<close>

definition count_completed :: "ident \<Rightarrow> store \<Rightarrow> int" where
  "count_completed run_id s =
     int (length (filter (\<lambda>p. p_run_id p = run_id \<and> p_status p = ''completed'')
                    (db_phases s)))"

text \<open>
  The result \<open>execute_spec\<close> builds at lines 443-450, a response whose JSON object
  holds an empty \<open>patches\<close> list next to a summary, and a world in which the CLI
  exits with code 0 and prints that object on every pass.
\<close>

definition no_actionable_changes :: CopilotExecutionResult where
  "no_actionable_changes =
     (failed_result ''No actionable changes generated - patches field is empty''
        (Some EXECUTION_ERROR))\<lparr>cr_completion_status := Some ''blocked''\<rparr>"

definition empty_patches_json :: copilot_json where
  "empty_patches_json =
     \<lparr>j_patches = Some [], j_changes_summary = Some ''Nothing to change'',
      j_files_modified = Some [], j_files_created = Some [],
      j_completion_status = Some ''complete'', j_other_keys = []\<rparr>"

definition empty_patches_env :: env where
  "empty_patches_env =
     timeout_env\<lparr>cli := (\<lambda>pass_number. CliExited 0 False False (Some empty_patches_json))\<rparr>"

text \<open>The phase row of \<open>one_phase_store\<close>, as \<open>get_phase\<close> loads it.\<close>

definition pending_phase :: phase_row where
  "pending_phase =
     \<lparr>p_phase_id = 10, p_run_id = 1, p_phase_number = 1, p_status = ''pending'',
      p_started_at = None, p_completed_at = None, p_branch_name = None,
      p_retry_count = 0, p_max_retries = 2\<rparr>"

section \<open>The threshold decision\<close>

text \<open>
  C1. For a findings summary holding the three severity counts and a configured
  threshold dictionary holding the three thresholds, the decision of
  \<open>_check_findings_thresholds\<close> is exactly
  \<open>major \<le> t.major \<and> medium \<le> t.medium \<and> minor \<le> t.minor\<close> (equality passes),
  and when no thresholds are configured the thresholds are 0, 3 and 10. The result
  depends on nothing but the two dictionaries.
\<close>

theorem check_findings_thresholds_decision:
  assumes "findings_summary ''major'' = Some a"
      and "findings_summary ''medium'' = Some b"
      and "findings_summary ''minor'' = Some c"
      and "configured ''major'' = Some x"
      and "configured ''medium'' = Some y"
      and "configured ''minor'' = Some z"
  shows "check_findings_thresholds (findings_thresholds (Some configured)) findings_summary
           = Inr (a \<le> x \<and> b \<le> y \<and> c \<le> z)
       \<and> check_findings_thresholds (findings_thresholds None) findings_summary
           = Inr (a \<le> 0 \<and> b \<le> 3 \<and> c \<le> 10)"
  using assms
  by (auto simp: check_findings_thresholds_def findings_thresholds_def dict_get_def
      exceeds_warning_def default_findings_thresholds_def)

theorem check_findings_thresholds_decision_witness:
  "check_findings_thresholds
     (findings_thresholds (Some [''major'' \<mapsto> 1, ''medium'' \<mapsto> 2, ''minor'' \<mapsto> 4]))
     [''major'' \<mapsto> 1, ''medium'' \<mapsto> 2, ''minor'' \<mapsto> 4] = Inr True
   \<and> check_findings_thresholds (findings_thresholds None)
     [''major'' \<mapsto> 1, ''medium'' \<mapsto> 2, ''minor'' \<mapsto> 4] = Inr False"
  using check_findings_thresholds_decision
    [of "[''major'' \<mapsto> 1, ''medium'' \<mapsto> 2, ''minor'' \<mapsto> 4]" 1 2 4
        "[''major'' \<mapsto> 1, ''medium'' \<mapsto> 2, ''minor'' \<mapsto> 4]" 1 2 4]
  by simp

section \<open>Facts about sequencing and the store\<close>

lemma bind_InrE:
  assumes "bind m f = (Inr b, s')"
  obtains a s1 where "m = (Inr a, s1)" and "f a s1 = (Inr b, s')"
  using assms by (cases m) (auto simp: bind_def split: sum.splits)

lemma bind_preserves:
  assumes "g (snd m) = g s0"
      and "\<And>a s1. g s1 = g s0 \<Longrightarrow> g (snd (f a s1)) = g s0"
  shows "g (snd (bind m f)) = g s0"
  using assms by (cases m) (auto simp: bind_def split: sum.splits)

lemma map_if_none: "\<not> list_ex cond rows \<Longrightarrow> map (\<lambda>r. if cond r then f r else r) rows = rows"
  by (induction rows) auto

lemma find_Some_list_ex: "find P xs = Some x \<Longrightarrow> list_ex P xs"
  by (induction xs) (auto split: if_splits)

lemma first_of_sorted:
  assumes "sort_key f xs = y # ys"
  shows "y \<in> set xs \<and> list_all (\<lambda>x. f y \<le> f x) xs"
proof -
  have s: "sorted (map f (sort_key f xs))" by (rule sorted_sort_key)
  have m: "set (sort_key f xs) = set xs" by simp
  from assms m have y: "y \<in> set xs" by (metis list.set_intros(1))
  from s assms have "\<forall>x\<in>set (y # ys). f y \<le> f x" by auto
  with assms m have "\<forall>x\<in>set xs. f y \<le> f x" by metis
  with y show ?thesis by (simp add: list_all_iff)
qed

lemma get_phase_store: "snd (get_phase phase_id s) = s"
  by (simp add: get_phase_def split: option.splits)

lemma get_pending_interventions_store: "snd (get_pending_interventions run_id s) = s"
  by (simp add: get_pending_interventions_def Let_def)

lemma update_phase_status_interventions:
  "db_manual_interventions (snd (update_phase_status phase_id status st ct s))
     = db_manual_interventions s"
  by (simp add: update_phase_status_def Let_def split: option.splits)

lemma update_run_status_interventions:
  "db_manual_interventions (snd (update_run_status run_id status err s))
     = db_manual_interventions s"
  by (simp add: update_run_status_def datetime_now_def split: option.splits)

lemma resolve_intervention_rejected:
  assumes "action \<notin> set [''resume'', ''skip'', ''modify_spec'', ''abort'']"
  shows "db_manual_interventions (snd (resolve_intervention intervention_id action notes s))
           = db_manual_interventions s"
  using assms
  by (auto simp: resolve_intervention_def datetime_now_def sql_update_def
      check_interventions_action_def map_if_none)

section \<open>Escalation\<close>

text \<open>
  \<open>handle_manual_intervention\<close> never completes: when the phase exists, the
  intervention is inserted and the \<open>UPDATE\<close> that would set the phase to \<open>paused\<close>
  is rejected by the \<open>CHECK\<close> of \<open>phases.status\<close>. No phase row and no run row
  changes.
\<close>

lemma handle_manual_intervention_never_pauses:
  "db_phases (snd (handle_manual_intervention phase_id s)) = db_phases s
   \<and> db_runs (snd (handle_manual_intervention phase_id s)) = db_runs s
   \<and> fst (handle_manual_intervention phase_id s) \<noteq> Inr x"
proof (cases "find (\<lambda>p. p_phase_id p = phase_id) (db_phases s)")
  case None
  then show ?thesis by (simp add: handle_manual_intervention_def get_phase_def bind_def)
next
  case (Some row)
  then have "list_ex (\<lambda>p. p_phase_id p = phase_id) (db_phases s)"
    by (rule find_Some_list_ex)
  with Some show ?thesis
    by (simp add: handle_manual_intervention_def get_phase_def bind_def
        create_intervention_def uuid_uuid4_def datetime_now_def
        check_interventions_reason_def check_interventions_action_def
        update_phase_status_def sql_update_def check_phases_status_def Let_def)
qed

text \<open>
  C2. Claimed: after a phase exhausts its retries (\<open>max_retries = 2\<close>, the
  Generation Service failing on both passes) exactly one \<open>max_retries_exceeded\<close>
  intervention exists and the phase and the run are \<open>paused\<close>. On the code, with the
  CLI timing out on both passes, \<open>execute_single_phase\<close> returns \<open>False\<close> with
  exactly one such intervention, but the phase ends \<open>failed\<close> and the run stays
  \<open>executing\<close>: neither is \<open>paused\<close>.
\<close>

theorem escalation_ends_failed_not_paused:
  "fst (execute_single_phase timeout_env 10 one_phase_store) = Inr False
   \<and> map mi_reason
        (db_manual_interventions (snd (execute_single_phase timeout_env 10 one_phase_store)))
       = [''max_retries_exceeded'']
   \<and> map p_status (db_phases (snd (execute_single_phase timeout_env 10 one_phase_store)))
       = [''failed'']
   \<and> map r_status (db_runs (snd (execute_single_phase timeout_env 10 one_phase_store)))
       = [''executing'']
   \<and> map (\<lambda>p. p_status p)
        (db_phases (snd (execute_single_phase disabled_env 10 one_phase_store)))
       = [''failed'']
   \<and> map r_status (db_runs (snd (execute_single_phase disabled_env 10 one_phase_store)))
       = [''executing'']
   \<and> fst (handle_manual_intervention 10 one_phase_store)
       = Inl (DatabaseError ''Failed to update phase status'')"
  by code_simp

section \<open>The retry counter\<close>

text \<open>
  C3. Claimed: when a terminal status is set, \<open>retry_count\<close> does not exceed
  \<open>max_retries\<close>. On the code, with \<open>max_retries = 2\<close> and the Generation Service
  answering with a failure result on both passes, the loop leaves the phase \<open>failed\<close>
  with \<open>retry_count = 3\<close>: the last pass increments at line 218 and again in the
  handler at line 295, before \<open>handle_execution_error\<close> sets \<open>failed\<close>.
\<close>

theorem retry_count_exceeds_max_retries:
  "map (\<lambda>p. (p_status p, p_retry_count p, p_max_retries p))
     (db_phases (snd (passes disabled_env 10 pending_phase 1 2 one_phase_store)))
     = [(''failed'', 3, 2)]
   \<and> fst (execute_single_phase disabled_env 10 one_phase_store) = Inr False
   \<and> map (\<lambda>p. (p_status p, p_retry_count p, p_max_retries p))
       (db_phases (snd (execute_single_phase disabled_env 10 one_phase_store)))
     = [(''failed'', 3, 2)]"
  by code_simp

section \<open>The run orchestrator\<close>

text \<open>
  For every run that has a phase, \<open>execute_phases\<close> raises
  \<open>AttributeError\<close> and leaves the run \<open>failed\<close>, whatever the executor and its
  collaborators are, as long as the environment validation does not fail: a phase that
  is not skipped is handed over as \<open>phase.id\<close>, and when every phase is skipped the
  summary of line 153 evaluates \<open>phase.id\<close> after the run was marked
  \<open>completed\<close>. No phase row changes.
\<close>

lemma update_run_status_ok:
  assumes "check_runs_status status"
  shows "update_run_status run_id status err s =
           (Inr (), s\<lparr>clock := Suc (clock s),
                     db_runs := map (\<lambda>r. if r_run_id r = run_id
                                         then r\<lparr>r_status := status, r_updated_at := clock s,
                                                r_error_message := err\<rparr>
                                         else r) (db_runs s)\<rparr>)"
  using assms by (simp add: update_run_status_def datetime_now_def sql_update_def list_ex_iff)

lemma get_phases_for_run_phases:
  assumes "get_phases_for_run run_id s = (Inr phases, s)" and "db_phases s' = db_phases s"
  shows "get_phases_for_run run_id s' = (Inr phases, s')"
  using assms by (auto simp: get_phases_for_run_def Let_def split: if_splits)

lemma phase_loop_raises:
  "phase_loop env run_id phases s =
     (if list_all (\<lambda>p. p_status p = ''skipped'') phases then (Inr False, s)
      else (Inl (AttributeError ''id''), s))"
  by (induction phases) (auto simp: PhaseState_id_def PhaseState_fields_def)

lemma generate_execution_summary_raises:
  assumes "get_phases_for_run run_id s = (Inr phases, s)" and "phases \<noteq> []"
  shows "generate_execution_summary run_id s = (Inl (AttributeError ''id''), s)"
  using assms
  by (cases phases)
     (auto simp: generate_execution_summary_def bind_def PhaseState_id_def PhaseState_fields_def)

lemma bind_Inr_simp: "bind (Inr a, s) f = f a s"
  by (simp add: bind_def)

lemma bind_Inl_simp: "bind (Inl e, s) f = (Inl e, s)"
  by (simp add: bind_def)

lemma catch_Inl_simp: "catch (Inl e, s) h = h e s"
  by (simp add: catch_def)

lemma catch_Inr_simp: "catch (Inr a, s) h = (Inr a, s)"
  by (simp add: catch_def)

lemma failed_rows:
  "map r_status (filter (\<lambda>r. r_run_id r = run_id)
     (map (\<lambda>r. if r_run_id r = run_id
                then r\<lparr>r_status := ''failed'', r_updated_at := t, r_error_message := e\<rparr>
                else r) rows))
   = map (\<lambda>r. ''failed'') (filter (\<lambda>r. r_run_id r = run_id) rows)"
  by (induction rows) auto

lemma update_run_status_failed:
  "\<exists>s'. update_run_status run_id ''failed'' None s = (Inr (), s')
        \<and> db_phases s' = db_phases s
        \<and> map r_status (filter (\<lambda>r. r_run_id r = run_id) (db_runs s'))
            = map (\<lambda>r. ''failed'') (filter (\<lambda>r. r_run_id r = run_id) (db_runs s))"
  by (simp add: update_run_status_ok check_runs_status_def failed_rows)

lemma update_run_status_keeps:
  assumes "check_runs_status status"
  shows "\<exists>s'. update_run_status run_id status None s = (Inr (), s')
        \<and> db_phases s' = db_phases s
        \<and> map r_run_id (db_runs s') = map r_run_id (db_runs s)"
  using assms by (simp add: update_run_status_ok comp_def if_distrib cong: if_cong)

lemma failed_count:
  assumes "map r_run_id rows' = map r_run_id rows"
  shows "map (\<lambda>r. ''failed'') (filter (\<lambda>r. r_run_id r = run_id) rows')
       = map (\<lambda>r. ''failed'') (filter (\<lambda>r. r_run_id r = run_id) rows)"
  using assms
proof (induction rows' arbitrary: rows)
  case Nil
  then show ?case by simp
next
  case (Cons a rows')
  then show ?case by (cases rows) auto
qed

lemma execute_phases_never_completes:
  assumes phases: "get_phases_for_run run_id s = (Inr phases, s)"
      and nonempty: "phases \<noteq> []"
      and validation: "\<not> copilot_interface env \<or> environment_valid env"
  shows "fst (execute_phases env run_id s) = Inl (AttributeError ''id'')
       \<and> map r_status (filter (\<lambda>r. r_run_id r = run_id)
                           (db_runs (snd (execute_phases env run_id s))))
           = map (\<lambda>r. ''failed'') (filter (\<lambda>r. r_run_id r = run_id) (db_runs s))
       \<and> db_phases (snd (execute_phases env run_id s)) = db_phases s"
proof -
  obtain s3 where s3: "update_run_status run_id ''executing'' None s = (Inr (), s3)"
    and p3: "db_phases s3 = db_phases s"
    and r3: "map r_run_id (db_runs s3) = map r_run_id (db_runs s)"
    using update_run_status_keeps[of "''executing''" run_id s]
    by (auto simp: check_runs_status_def)
  obtain s5 where s5: "update_run_status run_id ''completed'' None s3 = (Inr (), s5)"
    and p5: "db_phases s5 = db_phases s3"
    and r5: "map r_run_id (db_runs s5) = map r_run_id (db_runs s3)"
    using update_run_status_keeps[of "''completed''" run_id s3]
    by (auto simp: check_runs_status_def)
  from p3 p5 have p5': "db_phases s5 = db_phases s" by simp
  have summary: "generate_execution_summary run_id s5 = (Inl (AttributeError ''id''), s5)"
    by (rule generate_execution_summary_raises[OF get_phases_for_run_phases[OF phases p5'] nonempty])
  obtain sx where body: "execute_phases env run_id s
         = bind (update_run_status run_id ''failed'' None sx)
             (\<lambda>_ s2. (Inl (AttributeError ''id''), s2))"
    and px: "db_phases sx = db_phases s"
    and rx: "map r_run_id (db_runs sx) = map r_run_id (db_runs s)"
  proof (cases "list_all (\<lambda>p. p_status p = ''skipped'') (sort_key p_phase_number phases)")
    case True
    with phases nonempty validation s3 s5 summary
    have "execute_phases env run_id s
               = bind (update_run_status run_id ''failed'' None s5)
                   (\<lambda>_ s2. (Inl (AttributeError ''id''), s2))"
      by (auto simp: execute_phases_def phase_loop_raises bind_Inr_simp bind_Inl_simp
          catch_Inl_simp)
    with p5' r3 r5 that show ?thesis by simp
  next
    case False
    with phases nonempty validation s3
    have "execute_phases env run_id s
               = bind (update_run_status run_id ''failed'' None s3)
                   (\<lambda>_ s2. (Inl (AttributeError ''id''), s2))"
      by (auto simp: execute_phases_def phase_loop_raises bind_Inr_simp bind_Inl_simp
          catch_Inl_simp)
    with p3 r3 that show ?thesis by simp
  qed
  obtain s' where f: "update_run_status run_id ''failed'' None sx = (Inr (), s')"
    and pf: "db_phases s' = db_phases sx"
    and rf: "map r_status (filter (\<lambda>r. r_run_id r = run_id) (db_runs s'))
            = map (\<lambda>r. ''failed'') (filter (\<lambda>r. r_run_id r = run_id) (db_runs sx))"
    using update_run_status_failed[of run_id sx] by blast
  from body f have "execute_phases env run_id s = (Inl (AttributeError ''id''), s')"
    by (simp add: bind_Inr_simp)
  with pf px rf failed_count[OF rx, of run_id] show ?thesis by simp
qed


text \<open>
  C4. Claimed: when every non-skipped phase succeeds the run is marked \<open>completed\<close>,
  and a failing phase halts the run as \<open>paused\<close> or \<open>failed\<close>. On the code, for a
  run with one pending phase, \<open>execute_phases\<close> evaluates \<open>phase.id\<close> on the
  \<open>PhaseState\<close>, the \<open>AttributeError\<close> reaches the handler of line 156, the run
  is marked \<open>failed\<close> and the exception is raised again. The phase is never handed
  to \<open>execute_single_phase\<close>: the result is the same for every executor whose
  environment validation does not fail, whatever its collaborators answer.
\<close>

theorem execute_phases_marks_run_failed:
  "fst (execute_phases (env\<lparr>copilot_interface := False\<rparr>) 1 one_phase_store)
     = Inl (AttributeError ''id'')
   \<and> map r_status
        (db_runs (snd (execute_phases (env\<lparr>copilot_interface := False\<rparr>) 1 one_phase_store)))
       = [''failed'']
   \<and> db_phases (snd (execute_phases (env\<lparr>copilot_interface := False\<rparr>) 1 one_phase_store))
       = db_phases one_phase_store"
  by (simp add: one_phase_store_def execute_phases_def catch_def bind_def
      get_phases_for_run_def PhaseState_valid_def update_run_status_def datetime_now_def
      sql_update_def check_runs_status_def PhaseState_id_def PhaseState_fields_def Let_def)

section \<open>Recovery\<close>

text \<open>
  The recovery query of the store, \<open>recover_run\<close> through \<open>get_current_phase\<close>:
  for every run whose row exists with status \<open>executing\<close> or \<open>paused\<close> and whose
  phases carry positive phase numbers, it returns the run together with the phase of
  lowest \<open>phase_number\<close> among the run's phases in status \<open>in_progress\<close>, or no
  phase when the run has none, and leaves the store as it was.
\<close>

lemma recover_run_first_in_progress:
  assumes run: "find (\<lambda>r. r_run_id r = run_id) (db_runs s) = Some run"
      and st: "r_status run \<in> set [''executing'', ''paused'']"
      and nums: "list_all (\<lambda>p. 0 < p_phase_number p)
                   (filter (\<lambda>p. p_run_id p = run_id) (db_phases s))"
  shows "\<exists>current. recover_run run_id s = (Inr (run, current), s) \<and>
           (case current of
              None \<Rightarrow>
                filter (\<lambda>p. p_run_id p = run_id \<and> p_status p = ''in_progress'') (db_phases s)
                  = []
            | Some phase \<Rightarrow>
                phase \<in> set (db_phases s) \<and> p_run_id phase = run_id \<and>
                p_status phase = ''in_progress'' \<and>
                list_all (\<lambda>p. p_phase_number phase \<le> p_phase_number p)
                  (filter (\<lambda>p. p_run_id p = run_id \<and> p_status p = ''in_progress'')
                     (db_phases s)))"
proof -
  let ?act = "filter (\<lambda>p. p_run_id p = run_id \<and> p_status p = ''in_progress'') (db_phases s)"
  from st have valid: "RunState_valid run" by (auto simp: RunState_valid_def)
  show ?thesis
  proof (cases "sort_key p_phase_number ?act")
    case Nil
    then have "length ?act = 0" using length_sort[of p_phase_number ?act] by simp
    then have empty: "?act = []" by (rule iffD1[OF length_0_conv])
    have "get_current_phase run_id s = (Inr None, s)"
      unfolding get_current_phase_def Nil by simp
    with empty run valid show ?thesis
      by (simp add: recover_run_def get_run_def bind_def catch_def)
  next
    case (Cons row rest)
    from first_of_sorted[OF Cons] have mem: "row \<in> set ?act"
      and least: "list_all (\<lambda>p. p_phase_number row \<le> p_phase_number p) ?act" by auto
    from mem nums have "PhaseState_valid row"
      by (auto simp: PhaseState_valid_def list_all_iff)
    then have "get_current_phase run_id s = (Inr (Some row), s)"
      unfolding get_current_phase_def Cons by simp
    with run valid mem least show ?thesis
      by (simp add: recover_run_def get_run_def bind_def catch_def)
  qed
qed

text \<open>
  Both recovery paths take the first matching phase in \<open>phase_number\<close> order. For a
  run whose phases 1 and 2 are both \<open>in_progress\<close>, phase 2 started later, the query
  of the store returns phase 1.
\<close>

lemma recover_run_orders_by_phase_number:
  "map_sum id (map_option p_phase_id \<circ> snd) (fst (recover_run 1 two_active_store))
     = Inr (Some 10)
   \<and> map_sum id (map_option p_phase_id) (fst (get_current_phase 1 two_active_store))
     = Inr (Some 10)
   \<and> map (\<lambda>p. (p_phase_id p, p_status p, p_started_at p)) (db_phases two_active_store)
     = [(10, ''in_progress'', Some 2), (11, ''in_progress'', Some 5)]"
  by code_simp

text \<open>
  \<open>recover_execution\<close> never yields a resume point and never writes to the store:
  the phase it finds is returned as \<open>phase.id\<close>, which raises.
\<close>

lemma recover_execution_never_yields_phase:
  "fst (recover_execution run_id s) \<noteq> Inr (Some phase_id)
   \<and> snd (recover_execution run_id s) = s"
  by (auto simp: recover_execution_def bind_def get_run_def get_phases_for_run_def
      PhaseState_id_def PhaseState_fields_def Let_def split: option.splits)

text \<open>
  C5. Claimed: for a recoverable run the recovery query returns the most recent phase
  still in \<open>in_progress\<close> or \<open>paused\<close> as the resume point without modifying a
  completed phase, and a run with one \<open>completed\<close> and one \<open>in_progress\<close> phase
  yields the \<open>in_progress\<close> phase. On the code, for the run of that scenario
  (status \<open>executing\<close>, phase 1 \<open>completed\<close>, phase 2 \<open>in_progress\<close>),
  \<open>recover_execution\<close> finds phase 2 and raises \<open>AttributeError\<close> where it
  evaluates \<open>phase.id\<close> (lines 1193 and 1195): no resume point is returned. The
  store is left as it was, and the query of the store, \<open>recover_run\<close>, returns
  phase 2 on the same run.
\<close>

theorem recover_execution_raises_at_resume_point:
  "recover_execution 1 recovery_store = (Inl (AttributeError ''id''), recovery_store)
   \<and> map (\<lambda>p. (p_phase_id p, p_phase_number p, p_status p)) (db_phases recovery_store)
       = [(10, 1, ''completed''), (11, 2, ''in_progress'')]
   \<and> map_sum id (map_option p_phase_id \<circ> snd) (fst (recover_run 1 recovery_store))
       = Inr (Some 11)
   \<and> snd (recover_run 1 recovery_store) = recovery_store"
  by code_simp

section \<open>Patch application\<close>

text \<open>
  \<open>_apply_copilot_patches\<close> never writes to the store: the only statement that
  could, the \<open>add_finding\<close> call of lines 739-747, raises while its arguments are
  evaluated (\<open>phase.id\<close>), and the handler of line 753 returns \<open>False\<close>. Were
  \<open>phase.id\<close> to yield a value, the call would still raise \<open>TypeError\<close>, since
  \<open>add_finding\<close> has no parameter \<open>phase_id\<close>.
\<close>

lemma apply_copilot_patches_store:
  "snd (apply_copilot_patches env phase result pass_number s) = s"
  by (simp add: apply_copilot_patches_def catch_def PhaseState_id_def PhaseState_fields_def
      split: prod.splits)

lemma add_finding_rejects_phase_id:
  "add_finding ((''phase_id'', v) # kwargs) s
     = (Inl (TypeError ''unexpected keyword argument phase_id''), s)"
  by (simp add: add_finding_def bind_keywords_def add_finding_parameters_def)

text \<open>
  C6. Claimed: when a patch fails to apply, a major Finding is recorded and the apply
  is reported as failed. On the code, for a change-set of two patches of which
  \<open>git apply\<close> accepts the first and rejects the second, the apply is reported as
  failed (\<open>False\<close>) but the \<open>findings\<close> table is still empty: no Finding is
  recorded.
\<close>

theorem patch_failure_records_no_finding:
  "apply_patches second_patch_rejected_env 1 0 (cr_patches two_patches)
     = ([''a.py''], [ApplyFailed ''b.py''])
   \<and> fst (apply_copilot_patches second_patch_rejected_env pending_phase two_patches 1
            one_phase_store) = Inr False
   \<and> db_findings (snd (apply_copilot_patches second_patch_rejected_env pending_phase
                          two_patches 1 one_phase_store)) = []"
  by code_simp

section \<open>An empty change-set\<close>

lemma copilot_attempt_failed:
  assumes "\<not> cr_success (execute_spec (cli env pass_number))"
      and "copilot_attempt env phase execution_state pass_number s = (Inr r, s')"
  shows "r = execute_spec (cli env pass_number)"
  using assms unfolding copilot_attempt_def Let_def by (auto elim!: bind_InrE)

lemma register_outputs_error:
  assumes "register_outputs env phase result pass_number s = (Inl e, s')"
  shows "e = DatabaseError ''Failed to register artifact''"
  using assms
  by (auto simp: register_outputs_def bind_def register_artifact_def uuid_uuid4_def
      datetime_now_def Let_def split: if_splits)

lemma copilot_attempt_failed_error:
  assumes nosucc: "\<not> cr_success (execute_spec (cli env pass_number))"
      and res: "copilot_attempt env phase execution_state pass_number s = (Inl e, s')"
  shows "e = DatabaseError ''Failed to register artifact''"
proof -
  let ?r = "execute_spec (cli env pass_number)"
  obtain s1 where f: "fail_execution (e_execution_id execution_state)
                        (or_default (cr_error_message ?r) ''Unknown error'') s = (Inr (), s1)"
    by (simp add: fail_execution_def datetime_now_def)
  obtain x s2 where ro: "register_outputs env phase ?r pass_number s1 = (x, s2)"
    by (cases "register_outputs env phase ?r pass_number s1") auto
  show ?thesis
  proof (cases x)
    case (Inl e')
    with nosucc res f ro have "e' = e"
      by (simp add: copilot_attempt_def Let_def bind_def)
    with ro Inl show ?thesis using register_outputs_error by blast
  next
    case (Inr u)
    with nosucc res f ro show ?thesis
      by (simp add: copilot_attempt_def Let_def bind_def)
  qed
qed

lemma execute_with_copilot_failed:
  assumes nosucc: "\<not> cr_success (execute_spec (cli env pass_number))"
      and interface: "copilot_interface env"
      and res: "execute_with_copilot env phase_id pass_number s = (Inr r, s')"
  shows "r = execute_spec (cli env pass_number)"
proof -
  from res interface obtain phase s1 where
    1: "(case phase of
            None \<Rightarrow> (Inl (ValueError ''Phase not found''), s1)
          | Some phase \<Rightarrow>
              (case prompt_error env pass_number of
                 Some e \<Rightarrow> (Inl e, s1)
               | None \<Rightarrow>
                   bind (create_execution phase_id (int pass_number)
                           (if copilot_mode env = ''branch'' then ''branch'' else ''direct'') s1)
                     (\<lambda>execution_state s2.
                        case copilot_attempt env phase execution_state pass_number s2 of
                          (Inl (CopilotCLIError msg), s3) \<Rightarrow>
                            bind (fail_execution (e_execution_id execution_state) msg s3)
                              (\<lambda>_ s4. (Inr (failed_result msg None), s4))
                        | other \<Rightarrow> other))) = (Inr r, s')"
    unfolding execute_with_copilot_def by (auto elim!: bind_InrE)
  then obtain ph ex s2 where
    2: "(case copilot_attempt env ph ex pass_number s2 of
            (Inl (CopilotCLIError msg), s3) \<Rightarrow>
               bind (fail_execution (e_execution_id ex) msg s3)
                  (\<lambda>_ s4. (Inr (failed_result msg None), s4))
          | other \<Rightarrow> other) = (Inr r, s')"
    by (auto split: option.splits elim!: bind_InrE)
  show ?thesis
  proof (cases "copilot_attempt env ph ex pass_number s2")
    case (Pair x s3)
    show ?thesis
    proof (cases x)
      case (Inl e)
      with Pair have "e = DatabaseError ''Failed to register artifact''"
        using copilot_attempt_failed_error[OF nosucc] by simp
      with 2 Pair Inl show ?thesis by simp
    next
      case (Inr r')
      with 2 Pair have "r = r'" by simp
      with copilot_attempt_failed[OF nosucc] Pair Inr show ?thesis by simp
    qed
  qed
qed

lemma copilot_failed_never_returns:
  "copilot_failed env phase_id pass_number s \<noteq> (Inr (Return b), s')"
  unfolding copilot_failed_def by (auto elim!: bind_InrE split: if_splits)

lemma pass_raised_never_returns:
  "pass_raised env phase_id pass_number s \<noteq> (Inr (Return b), s')"
  unfolding pass_raised_def by (auto elim!: bind_InrE split: if_splits)

lemma execute_pass_failed:
  assumes nosucc: "\<not> cr_success (execute_spec (cli env pass_number))"
      and interface: "copilot_interface env"
  shows "execute_pass env phase_id phase pass_number s \<noteq> (Inr (Return b), s')"
proof
  assume "execute_pass env phase_id phase pass_number s = (Inr (Return b), s')"
  then obtain s1 where
    c: "catch (attempt_pass env phase_id phase pass_number s1)
         (\<lambda>e s2. pass_raised env phase_id pass_number s2) = (Inr (Return b), s')"
    unfolding execute_pass_def by (auto elim!: bind_InrE)
  show False
  proof (cases "attempt_pass env phase_id phase pass_number s1")
    case (Pair x s2)
    show ?thesis
    proof (cases x)
      case (Inl e)
      with c Pair show ?thesis by (simp add: catch_def pass_raised_never_returns)
    next
      case (Inr sig)
      with c Pair have "attempt_pass env phase_id phase pass_number s1 = (Inr (Return b), s')"
        by (simp add: catch_def)
      then obtain r s3 s4 where
        e: "execute_with_copilot env phase_id pass_number s3 = (Inr r, s4)"
        and k: "(if \<not> cr_success r then copilot_failed env phase_id pass_number s4
                 else verify_pass env phase_id phase pass_number s4) = (Inr (Return b), s')"
        unfolding attempt_pass_def by (auto elim!: bind_InrE)
      from execute_with_copilot_failed[OF nosucc interface e] nosucc k show ?thesis
        by (simp add: copilot_failed_never_returns)
    qed
  qed
qed

text \<open>
  C7. When the CLI exits with code 0 and its JSON object carries an empty \<open>patches\<close>
  list (or other keys and no \<open>patches\<close> key at all), \<open>execute_spec\<close> returns the failure result \<open>No actionable changes
  generated - patches field is empty\<close>, not a success. In the executor, with the
  interface in place, \<open>execute_with_copilot\<close> then either raises or returns that
  same failure result, and the pass never ends in \<open>return True\<close>.
\<close>

theorem empty_change_set_is_failure:
  assumes response: "cli env pass_number = CliExited 0 not_found auth (Some j)"
      and empty: "j_patches j = Some [] \<or> (j_patches j = None \<and> json_truthy j)"
      and interface: "copilot_interface env"
  shows "execute_spec (cli env pass_number) = no_actionable_changes
       \<and> \<not> cr_success no_actionable_changes
       \<and> cr_error_message no_actionable_changes
           = Some ''No actionable changes generated - patches field is empty''
       \<and> (case execute_with_copilot env phase_id pass_number s of
             (Inl e, s') \<Rightarrow> True
           | (Inr r, s') \<Rightarrow> r = no_actionable_changes)
       \<and> (case fst (execute_pass env phase_id phase pass_number s) of
             Inr (Return b) \<Rightarrow> False
           | _ \<Rightarrow> True)"
proof -
  from response empty have spec: "execute_spec (cli env pass_number) = no_actionable_changes"
    by (auto simp: execute_spec_def json_truthy_def no_actionable_changes_def Let_def)
  have nosucc: "\<not> cr_success no_actionable_changes"
    by (simp add: no_actionable_changes_def failed_result_def)
  have msg: "cr_error_message no_actionable_changes
               = Some ''No actionable changes generated - patches field is empty''"
    by (simp add: no_actionable_changes_def failed_result_def)
  from spec nosucc have ns: "\<not> cr_success (execute_spec (cli env pass_number))" by simp
  have ewc: "case execute_with_copilot env phase_id pass_number s of
               (Inl e, s') \<Rightarrow> True
             | (Inr r, s') \<Rightarrow> r = no_actionable_changes"
  proof (cases "execute_with_copilot env phase_id pass_number s")
    case (Pair x s')
    then show ?thesis
      using execute_with_copilot_failed[OF ns interface] spec by (cases x) auto
  qed
  have pass: "case fst (execute_pass env phase_id phase pass_number s) of
                Inr (Return b) \<Rightarrow> False
              | _ \<Rightarrow> True"
  proof (cases "execute_pass env phase_id phase pass_number s")
    case (Pair x s')
    then show ?thesis
      using execute_pass_failed[OF ns interface, of phase_id phase s]
      by (cases x) (auto split: loop_signal.splits)
  qed
  from spec nosucc msg ewc pass show ?thesis by simp
qed

theorem empty_change_set_is_failure_witness:
  "cli empty_patches_env 1 = CliExited 0 False False (Some empty_patches_json)
   \<and> j_patches empty_patches_json = Some []
   \<and> copilot_interface empty_patches_env
   \<and> execute_spec (cli empty_patches_env 1) = no_actionable_changes
   \<and> fst (execute_pass empty_patches_env 10 pending_phase 1 one_phase_store) = Inr Continue
   \<and> fst (execute_with_copilot (empty_patches_env\<lparr>prompt_file_exists := (\<lambda>_. False)\<rparr>) 10 1
            one_phase_store) = Inr no_actionable_changes"
proof -
  have h1: "cli empty_patches_env 1 = CliExited 0 False False (Some empty_patches_json)"
    by (simp add: empty_patches_env_def timeout_env_def disabled_env_def)
  have h2: "j_patches empty_patches_json = Some []"
    by (simp add: empty_patches_json_def)
  then have h2': "j_patches empty_patches_json = Some [] \<or>
                  (j_patches empty_patches_json = None \<and> json_truthy empty_patches_json)"
    by simp
  have h3: "copilot_interface empty_patches_env"
    by (simp add: empty_patches_env_def timeout_env_def disabled_env_def)
  have c: "fst (execute_pass empty_patches_env 10 pending_phase 1 one_phase_store) = Inr Continue"
    by code_simp
  have d: "fst (execute_with_copilot (empty_patches_env\<lparr>prompt_file_exists := (\<lambda>_. False)\<rparr>)
                  10 1 one_phase_store) = Inr no_actionable_changes"
    by code_simp
  from empty_change_set_is_failure[OF h1 h2' h3, of 10 one_phase_store pending_phase] h1 h2 h3 c d
  show ?thesis by simp
qed

section \<open>The counter of completed phases\<close>

text \<open>
  C8. Claimed: after every phase-status mutation, \<open>completed_phases\<close> of the run
  equals the number of its phases in status \<open>completed\<close>. On the code,
  \<open>update_phase_status\<close> adds one whenever the status written is \<open>completed\<close>,
  whatever the status was, and never subtracts: writing \<open>completed\<close> twice on the
  one phase of a run leaves the counter at 2 with one completed phase, and writing
  \<open>failed\<close> on a completed phase leaves the counter at 1 with none.
\<close>

theorem completed_phases_counter_drifts:
  "map r_completed_phases
     (db_runs (snd (bind (update_phase_status 10 ''completed'' None (Some 7) one_phase_store)
                      (\<lambda>_. update_phase_status 10 ''completed'' None (Some 8))))) = [2]
   \<and> count_completed 1
        (snd (bind (update_phase_status 10 ''completed'' None (Some 7) one_phase_store)
                (\<lambda>_. update_phase_status 10 ''completed'' None (Some 8)))) = 1
   \<and> map r_completed_phases
        (db_runs (snd (bind (update_phase_status 10 ''completed'' None (Some 7) one_phase_store)
                         (\<lambda>_. update_phase_status 10 ''failed'' None None)))) = [1]
   \<and> count_completed 1
        (snd (bind (update_phase_status 10 ''completed'' None (Some 7) one_phase_store)
                (\<lambda>_. update_phase_status 10 ''failed'' None None))) = 0"
  by code_simp

section \<open>Resuming after an intervention\<close>

text \<open>
  \<open>resume_phase\<close> never changes the table of interventions, whatever the action:
  each branch hands \<open>resolve_intervention\<close> a string (\<open>resumed\<close>, \<open>skipped\<close>,
  \<open>modified_spec\<close>, \<open>aborted\<close>) that the \<open>CHECK\<close> of \<open>action_taken\<close>
  rejects.
\<close>

lemma resume_phase_never_resolves:
  "db_manual_interventions (snd (resume_phase phase_id action spec_path_ok s))
     = db_manual_interventions s"
  unfolding resume_phase_def
  by (intro bind_preserves allI impI conjI
      | simp add: resolve_intervention_rejected get_phase_store
          get_pending_interventions_store update_phase_status_interventions
          update_run_status_interventions split: option.splits)+

text \<open>
  C9. Claimed: \<open>resume(phase, action)\<close> changes the phase and run status as the
  action says and resolves the open intervention exactly once with a valid
  \<open>action_taken\<close>. On the code, for the phase of an escalated run with its open
  intervention, each of the four actions changes the statuses and then raises
  \<open>DatabaseError\<close> from \<open>resolve_intervention\<close>; the intervention stays open,
  with no \<open>action_taken\<close> and no \<open>resolved_at\<close>.
\<close>

theorem resume_leaves_intervention_open:
  "fst (resume_phase 10 ''resume'' False escalated_store)
     = Inl (DatabaseError ''Failed to resolve intervention'')
   \<and> fst (resume_phase 10 ''skip'' False escalated_store)
     = Inl (DatabaseError ''Failed to resolve intervention'')
   \<and> fst (resume_phase 10 ''modify_spec'' True escalated_store)
     = Inl (DatabaseError ''Failed to resolve intervention'')
   \<and> fst (resume_phase 10 ''abort'' False escalated_store)
     = Inl (DatabaseError ''Failed to resolve intervention'')
   \<and> map (\<lambda>i. (mi_action_taken i, mi_resolved_at i))
        (db_manual_interventions (snd (resume_phase 10 ''resume'' False escalated_store)))
     = [(None, None)]
   \<and> map p_status (db_phases (snd (resume_phase 10 ''resume'' False escalated_store)))
     = [''in_progress'']
   \<and> map r_status (db_runs (snd (resume_phase 10 ''resume'' False escalated_store)))
     = [''executing'']
   \<and> map r_status (db_runs (snd (resume_phase 10 ''abort'' False escalated_store)))
     = [''aborted'']"
  by code_simp

section \<open>Verification without an execution\<close>

text \<open>
  C10. When the store holds no execution of the phase, \<open>_run_verification\<close> returns
  a result with \<open>passed = True\<close>, no findings, a summary of zeros and an empty
  \<open>checks_run\<close>, and leaves the store as it was: no check is run.
\<close>

theorem run_verification_without_execution:
  assumes "filter (\<lambda>e. e_phase_id e = p_phase_id phase) (db_executions s) = []"
  shows "run_verification env phase pass_number s =
           (Inr \<lparr>vr_passed = True, vr_findings = [],
                  vr_findings_summary = [''major'' \<mapsto> 0, ''medium'' \<mapsto> 0, ''minor'' \<mapsto> 0],
                  vr_failed_checklist_items = [], vr_checks_run = []\<rparr>, s)"
  using assms by (simp add: run_verification_def get_executions_for_phase_def bind_def)

theorem run_verification_without_execution_witness:
  "filter (\<lambda>e. e_phase_id e = p_phase_id pending_phase) (db_executions one_phase_store) = []
   \<and> run_verification timeout_env pending_phase 1 one_phase_store =
        (Inr \<lparr>vr_passed = True, vr_findings = [],
               vr_findings_summary = [''major'' \<mapsto> 0, ''medium'' \<mapsto> 0, ''minor'' \<mapsto> 0],
               vr_failed_checklist_items = [], vr_checks_run = []\<rparr>, one_phase_store)"
proof -
  have h: "filter (\<lambda>e. e_phase_id e = p_phase_id pending_phase) (db_executions one_phase_store)
             = []"
    by (simp add: one_phase_store_def)
  from run_verification_without_execution[OF h, of timeout_env 1] h show ?thesis by simp
qed

end
